theory Spec2Isabelle
  imports Complex_Main "HOL-Library.Sublist" "HOL-Library.AList"
begin

section \<open>Loosely-typed values\<close>

text \<open>
  The adapters of \<^verbatim>\<open>quotaConfigs.ts\<close> read parsed JSON. A value is what
  \<^verbatim>\<open>JSON.parse\<close> can return, plus \<^verbatim>\<open>undefined\<close> for a property that is
  not there. A JSON number is a finite double; it is a \<open>real\<close> here, and the adapters
  only compare and pass numbers on. Strings are lists of 8-bit characters; they are
  compared, tested for emptiness and searched for ASCII phrases. The text of a
  credential file, which is trimmed before it is parsed, is a list of UTF-16 code
  units, so that every character JavaScript takes for white space has its place.
\<close>

datatype jsval =
    JUndefined
  | JNull
  | JBool bool
  | JNum real
  | JStr string
  | JArr "jsval list"
  | JObj "(string \<times> jsval) list"

text \<open>\<^verbatim>\<open>v == null\<close>: the values the operators \<^verbatim>\<open>??\<close> and \<^verbatim>\<open>?.\<close> skip.\<close>

fun nullish :: "jsval \<Rightarrow> bool" where
  "nullish JUndefined = True"
| "nullish JNull = True"
| "nullish _ = False"

text \<open>\<^verbatim>\<open>a ?? b\<close>.\<close>

definition coalesce :: "jsval \<Rightarrow> jsval \<Rightarrow> jsval" where
  "coalesce a b = (if nullish a then b else a)"

text \<open>\<^verbatim>\<open>Boolean(v)\<close>, the test of \<^verbatim>\<open>if (v)\<close> and \<^verbatim>\<open>!v\<close>.\<close>

fun truthy :: "jsval \<Rightarrow> bool" where
  "truthy JUndefined = False"
| "truthy JNull = False"
| "truthy (JBool b) = b"
| "truthy (JNum x) = (x \<noteq> 0)"
| "truthy (JStr s) = (s \<noteq> [])"
| "truthy (JArr _) = True"
| "truthy (JObj _) = True"

text \<open>\<^verbatim>\<open>typeof v === 'object'\<close>: true of null, arrays and objects.\<close>

fun typeofObject :: "jsval \<Rightarrow> bool" where
  "typeofObject JNull = True"
| "typeofObject (JArr _) = True"
| "typeofObject (JObj _) = True"
| "typeofObject _ = False"

text \<open>\<^verbatim>\<open>Array.isArray(v)\<close>.\<close>

fun isArray :: "jsval \<Rightarrow> bool" where
  "isArray (JArr _) = True"
| "isArray _ = False"

text \<open>\<^verbatim>\<open>v === false\<close>.\<close>

fun isFalse :: "jsval \<Rightarrow> bool" where
  "isFalse (JBool b) = (\<not> b)"
| "isFalse _ = False"

text \<open>
  \<^verbatim>\<open>v.k\<close> for a property name \<open>k\<close> of the payload: the value stored under \<open>k\<close> in
  an object, \<^verbatim>\<open>undefined\<close> in every other value. On \<^verbatim>\<open>null\<close> and \<^verbatim>\<open>undefined\<close>
  JavaScript raises a TypeError instead; the sources read a property only from a value
  they have tested, or through \<^verbatim>\<open>?.\<close>, except in \<open>resolveAntigravityProjectId\<close>,
  where that case is written out.
\<close>

fun dot :: "jsval \<Rightarrow> string \<Rightarrow> jsval" where
  "dot (JObj kvs) k = (case map_of kvs k of Some v \<Rightarrow> v | None \<Rightarrow> JUndefined)"
| "dot _ k = JUndefined"

text \<open>\<^verbatim>\<open>v?.k\<close>.\<close>

definition optDot :: "jsval \<Rightarrow> string \<Rightarrow> jsval" where
  "optDot v k = (if nullish v then JUndefined else dot v k)"

text \<open>\<^verbatim>\<open>a ?? b\<close> on values of a type \<^verbatim>\<open>T | null\<close> or \<^verbatim>\<open>T | undefined\<close>.\<close>

fun orElse :: "'a option \<Rightarrow> 'a option \<Rightarrow> 'a option" where
  "orElse (Some a) b = Some a"
| "orElse None b = b"

text \<open>The test \<^verbatim>\<open>if (s)\<close> on a \<^verbatim>\<open>string | null\<close>: neither null nor empty.\<close>

fun truthyStr :: "string option \<Rightarrow> bool" where
  "truthyStr None = False"
| "truthyStr (Some s) = (s \<noteq> [])"

text \<open>
  \<^verbatim>\<open>if (x) return x;\<close> followed by the rest of the block: the value returned, or
  \<open>None\<close> when the block ends without a \<^verbatim>\<open>return\<close>.
\<close>

fun returnIfTruthy :: "string option \<Rightarrow> string option \<Rightarrow> string option" where
  "returnIfTruthy None rest = rest"
| "returnIfTruthy (Some s) rest = (if s \<noteq> [] then Some s else rest)"

text \<open>
  \<^verbatim>\<open>if (!s) { throw e; }\<close> followed by the rest of the function, which uses
  the string.
\<close>

fun requireStr :: "string option \<Rightarrow> 'e \<Rightarrow> (string \<Rightarrow> 'e + 'a) \<Rightarrow> 'e + 'a" where
  "requireStr None e rest = Inl e"
| "requireStr (Some s) e rest = (if s \<noteq> [] then rest s else Inl e)"

subsection \<open>Strings\<close>

text \<open>A text as a list of UTF-16 code units, and the code units of an ASCII string.\<close>

type_synonym jstext = "nat list"

definition codeUnits :: "string \<Rightarrow> jstext" where
  "codeUnits s = map of_char s"

text \<open>
  The code units that \<^verbatim>\<open>trim\<close> strips: the white space and line terminators of
  ECMAScript, which are U+0009 to U+000D, U+0020, U+00A0, U+1680, U+2000 to U+200A,
  U+2028, U+2029, U+202F, U+205F, U+3000 and U+FEFF.
\<close>

definition isWhiteSpace :: "nat \<Rightarrow> bool" where
  "isWhiteSpace c =
     ((9 \<le> c \<and> c \<le> 13) \<or> c = 32 \<or> c = 160 \<or> c = 5760 \<or> (8192 \<le> c \<and> c \<le> 8202)
      \<or> c = 8232 \<or> c = 8233 \<or> c = 8239 \<or> c = 8287 \<or> c = 12288 \<or> c = 65279)"

text \<open>\<^verbatim>\<open>s.trim()\<close>.\<close>

definition trim :: "jstext \<Rightarrow> jstext" where
  "trim s = rev (dropWhile isWhiteSpace (rev (dropWhile isWhiteSpace s)))"

definition lowerChar :: "char \<Rightarrow> char" where
  "lowerChar c =
     (case map_of (zip ''ABCDEFGHIJKLMNOPQRSTUVWXYZ'' ''abcdefghijklmnopqrstuvwxyz'') c of
        Some l \<Rightarrow> l
      | None \<Rightarrow> c)"

text \<open>\<^verbatim>\<open>s.toLowerCase()\<close>.\<close>

definition toLowerCase :: "string \<Rightarrow> string" where
  "toLowerCase s = map lowerChar s"

text \<open>\<^verbatim>\<open>s.includes(p)\<close>: \<open>p\<close> occurs in \<open>s\<close> as a contiguous substring.\<close>

fun str_includes :: "string \<Rightarrow> string \<Rightarrow> bool" where
  "str_includes [] p = (p = [])"
| "str_includes (c # cs) p = (prefix p (c # cs) \<or> str_includes cs p)"

section \<open>The transport and the imported helpers\<close>

text \<open>
  \<^verbatim>\<open>apiCallApi.request\<close> takes a request object and resolves to a result, or
  rejects with a thrown value.
\<close>

record ApiCallRequest =
  authIndex :: string
  httpMethod :: string
  url :: string
  header :: "(string \<times> string) list"
  data :: "string option"

record ApiCallResult =
  statusCode :: int
  body :: jsval
  bodyText :: jsval

text \<open>
  A thrown value: an \<^verbatim>\<open>Error\<close> object with its message and further properties,
  or any other value.
\<close>

datatype thrown = JsError string jsval | NonError jsval

datatype outcome = Returned ApiCallResult | Thrown thrown

text \<open>
  What the adapters throw: \<^verbatim>\<open>new Error(message)\<close>,
  \<^verbatim>\<open>createStatusError(message, status)\<close>, or a rejection of the transport passed on.
\<close>

datatype quota_error =
    PlainError string
  | StatusError string "int option"
  | Rethrown thrown

text \<open>
  An Antigravity quota group, as \<open>buildAntigravityQuotaGroups\<close> returns it: id,
  label, models, remaining fraction, reset time.
\<close>

datatype AntigravityQuotaGroup =
  QuotaGroup string string "string list" real "string option"

text \<open>
  The functions and constants that \<^verbatim>\<open>quotaConfigs.ts\<close> imports from
  \<^verbatim>\<open>@/utils/quota\<close> and \<^verbatim>\<open>@/services/api\<close>, the translation function \<open>t\<close>
  (here \<open>i18n\<close>) and the platform's \<^verbatim>\<open>JSON\<close> and \<^verbatim>\<open>Date\<close> are parameters of
  the model: every theorem below holds for each choice of them. The helpers are pure
  and return normally. \<open>request\<close> takes, before the request, the number of requests
  issued so far, so that the transport may answer the same request differently at
  different times. \<open>downloadText\<close> and \<open>JSON_parse\<close> give \<open>None\<close> where
  the original throws, and work on the text as code units; \<open>Date_getTime s\<close> is \<^verbatim>\<open>new Date(s).getTime()\<close> in
  milliseconds, \<open>None\<close> for \<^verbatim>\<open>NaN\<close>.
\<close>

record env =
  i18n :: "string \<Rightarrow> string"
  normalizeAuthIndexValue :: "jsval \<Rightarrow> string option"
  normalizeStringValue :: "jsval \<Rightarrow> string option"
  normalizeNumberValue :: "jsval \<Rightarrow> real option"
  normalizeQuotaFraction :: "jsval \<Rightarrow> real option"
  normalizePlanType :: "jsval \<Rightarrow> string option"
  formatCodexResetLabel :: "jsval \<Rightarrow> string"
  getApiCallErrorMessage :: "ApiCallResult \<Rightarrow> string"
  getStatusFromError :: "thrown \<Rightarrow> int option"
  parseAntigravityPayload :: "jsval \<Rightarrow> jsval"
  parseCodexUsagePayload :: "jsval \<Rightarrow> jsval"
  parseGithubCopilotTokenPayload :: "jsval \<Rightarrow> jsval"
  buildAntigravityQuotaGroups :: "jsval \<Rightarrow> AntigravityQuotaGroup list"
  resolveCodexPlanType :: "jsval \<Rightarrow> string option"
  resolveCodexChatgptAccountId :: "jsval \<Rightarrow> string option"
  ANTIGRAVITY_QUOTA_URLS :: "string list"
  ANTIGRAVITY_REQUEST_HEADERS :: "(string \<times> string) list"
  CODEX_USAGE_URL :: string
  CODEX_REQUEST_HEADERS :: "(string \<times> string) list"
  GITHUB_COPILOT_USAGE_URL :: string
  GITHUB_COPILOT_REQUEST_HEADERS :: "(string \<times> string) list"
  request :: "nat \<Rightarrow> ApiCallRequest \<Rightarrow> outcome"
  downloadText :: "jsval \<Rightarrow> jstext option"
  JSON_parse :: "jstext \<Rightarrow> jsval option"
  JSON_stringify :: "jsval \<Rightarrow> string"
  Date_getTime :: "string \<Rightarrow> int option"

section \<open>Antigravity\<close>

definition DEFAULT_ANTIGRAVITY_PROJECT_ID :: string where
  "DEFAULT_ANTIGRAVITY_PROJECT_ID = ''bamboo-precept-lgxtn''"

text \<open>
  \<^verbatim>\<open>x && typeof x === 'object' && x !== null ? x : null\<close>, the test on
  \<^verbatim>\<open>parsed.installed\<close> and \<^verbatim>\<open>parsed.web\<close>.
\<close>

definition objectOrNull :: "jsval \<Rightarrow> jsval" where
  "objectOrNull x = (if truthy x \<and> typeofObject x \<and> x \<noteq> JNull then x else JNull)"

text \<open>
  \<^verbatim>\<open>sub ? normalizeStringValue(sub.project_id ?? sub.projectId) : null\<close>.
\<close>

definition nestedProjectId :: "env \<Rightarrow> jsval \<Rightarrow> string option" where
  "nestedProjectId E sub =
     (if truthy sub
      then normalizeStringValue E (coalesce (dot sub ''project_id'') (dot sub ''projectId''))
      else None)"

text \<open>
  What the \<^verbatim>\<open>try\<close> block of \<open>resolveAntigravityProjectId\<close> can raise: the
  download rejects, \<^verbatim>\<open>JSON.parse\<close> raises a SyntaxError, and reading a property of
  \<^verbatim>\<open>null\<close> (the text \<^verbatim>\<open>null\<close> parses to it) raises a TypeError.
\<close>

datatype js_exception = DownloadFailed | SyntaxError | TypeError

text \<open>
  The \<^verbatim>\<open>try\<close> block: an exception, the value of a \<^verbatim>\<open>return\<close> inside it, or
  \<open>None\<close> when the block runs to its end.
\<close>

definition resolveProjectIdTry :: "env \<Rightarrow> jsval \<Rightarrow> js_exception + string option" where
  "resolveProjectIdTry E file =
     (case downloadText E (dot file ''name'') of
        None \<Rightarrow> Inl DownloadFailed
      | Some text \<Rightarrow>
          (let trimmed = trim text in
           if trimmed = [] then Inr (Some DEFAULT_ANTIGRAVITY_PROJECT_ID)
           else
             (case JSON_parse E trimmed of
                None \<Rightarrow> Inl SyntaxError
              | Some parsed \<Rightarrow>
                  if nullish parsed then Inl TypeError
                  else
                    (let topLevel =
                           normalizeStringValue E
                             (coalesce (dot parsed ''project_id'') (dot parsed ''projectId''));
                         installed = objectOrNull (dot parsed ''installed'');
                         installedProjectId = nestedProjectId E installed;
                         web = objectOrNull (dot parsed ''web'');
                         webProjectId = nestedProjectId E web
                     in Inr (returnIfTruthy topLevel
                               (returnIfTruthy installedProjectId
                                  (returnIfTruthy webProjectId None)))))))"

text \<open>
  \<open>resolveAntigravityProjectId\<close>: the \<^verbatim>\<open>catch\<close> returns the default project id,
  and so does the \<^verbatim>\<open>return\<close> after the \<^verbatim>\<open>try\<close> statement.
\<close>

definition resolveAntigravityProjectId :: "env \<Rightarrow> jsval \<Rightarrow> string" where
  "resolveAntigravityProjectId E file =
     (case resolveProjectIdTry E file of
        Inl e \<Rightarrow> DEFAULT_ANTIGRAVITY_PROJECT_ID
      | Inr (Some projectId) \<Rightarrow> projectId
      | Inr None \<Rightarrow> DEFAULT_ANTIGRAVITY_PROJECT_ID)"

definition isAntigravityUnknownFieldError :: "string \<Rightarrow> bool" where
  "isAntigravityUnknownFieldError message =
     (let normalized = toLowerCase message
      in str_includes normalized ''unknown name'' \<and> str_includes normalized ''cannot find field'')"

text \<open>
  The variables of the attempt loop of \<open>fetchAntigravityQuota\<close>, and \<open>attempts\<close>,
  the requests issued so far, each with what the transport answered.
\<close>

record attempt_state =
  lastError :: string
  lastStatus :: "int option"
  priorityStatus :: "int option"
  hadSuccess :: bool
  attempts :: "(ApiCallRequest \<times> outcome) list"

definition initialAttemptState :: attempt_state where
  "initialAttemptState =
     \<lparr>lastError = [], lastStatus = None, priorityStatus = None, hadSuccess = False,
      attempts = []\<rparr>"

text \<open>
  The request object of one attempt: \<^verbatim>\<open>{ authIndex, method: 'POST', url,
  header: { ...ANTIGRAVITY_REQUEST_HEADERS }, data: requestBodies[attempt] }\<close>.
\<close>

definition antigravityRequest :: "env \<Rightarrow> string \<Rightarrow> string \<Rightarrow> string \<Rightarrow> ApiCallRequest" where
  "antigravityRequest E ai u b =
     \<lparr>authIndex = ai, httpMethod = ''POST'', url = u,
      header = ANTIGRAVITY_REQUEST_HEADERS E, data = Some b\<rparr>"

text \<open>
  The inner loop \<^verbatim>\<open>for (let attempt = 0; attempt < requestBodies.length; attempt++)\<close>
  for one URL, from the current attempt on: the list holds the bodies of this and the
  later attempts, so \<^verbatim>\<open>attempt < requestBodies.length - 1\<close> says that its tail is
  not empty. The result is the group list of a \<^verbatim>\<open>return\<close>, or \<open>None\<close> when the
  loop ends or breaks, with the variables as they are then.
\<close>

fun attemptBodies ::
  "env \<Rightarrow> string \<Rightarrow> string \<Rightarrow> string list \<Rightarrow> attempt_state \<Rightarrow>
     AntigravityQuotaGroup list option \<times> attempt_state" where
  "attemptBodies E ai u [] st = (None, st)"
| "attemptBodies E ai u (b # bs) st =
     (let rq = antigravityRequest E ai u b;
          out = request E (length (attempts st)) rq;
          st0 = st\<lparr>attempts := attempts st @ [(rq, out)]\<rparr>
      in case out of
           Returned result \<Rightarrow>
             if statusCode result < 200 \<or> statusCode result \<ge> 300 then
               (let st1 = st0\<lparr>lastError := getApiCallErrorMessage E result,
                               lastStatus := Some (statusCode result)\<rparr>;
                    st2 = (if statusCode result = 403 \<or> statusCode result = 404
                           then st1\<lparr>priorityStatus :=
                                      orElse (priorityStatus st1) (Some (statusCode result))\<rparr>
                           else st1)
                in if statusCode result = 400
                      \<and> isAntigravityUnknownFieldError (lastError st2)
                      \<and> bs \<noteq> []
                   then attemptBodies E ai u bs st2
                   else (None, st2))
             else
               (let st1 = st0\<lparr>hadSuccess := True\<rparr>;
                    payload = parseAntigravityPayload E (coalesce (body result) (bodyText result));
                    models = optDot payload ''models''
                in if \<not> truthy models \<or> \<not> typeofObject models \<or> isArray models
                   then attemptBodies E ai u bs
                          (st1\<lparr>lastError := i18n E ''antigravity_quota.empty_models''\<rparr>)
                   else
                     (let groups = buildAntigravityQuotaGroups E models
                      in if length groups = 0
                         then attemptBodies E ai u bs
                                (st1\<lparr>lastError := i18n E ''antigravity_quota.empty_models''\<rparr>)
                         else (Some groups, st1)))
         | Thrown err \<Rightarrow>
             (let st1 = st0\<lparr>lastError :=
                              (case err of
                                 JsError m _ \<Rightarrow> m
                               | NonError _ \<Rightarrow> i18n E ''common.unknown_error'')\<rparr>;
                  st2 = (case getStatusFromError E err of
                           None \<Rightarrow> st1
                         | Some status \<Rightarrow>
                             if status \<noteq> 0 then
                               (let st1' = st1\<lparr>lastStatus := Some status\<rparr>
                                in if status = 403 \<or> status = 404
                                   then st1'\<lparr>priorityStatus :=
                                               orElse (priorityStatus st1') (Some status)\<rparr>
                                   else st1')
                             else st1)
              in attemptBodies E ai u bs st2))"

text \<open>The outer loop \<^verbatim>\<open>for (const url of ANTIGRAVITY_QUOTA_URLS)\<close>.\<close>

fun tryUrls ::
  "env \<Rightarrow> string \<Rightarrow> string list \<Rightarrow> string list \<Rightarrow> attempt_state \<Rightarrow>
     AntigravityQuotaGroup list option \<times> attempt_state" where
  "tryUrls E ai [] bodies st = (None, st)"
| "tryUrls E ai (u # us) bodies st =
     (case attemptBodies E ai u bodies st of
        (Some groups, st') \<Rightarrow> (Some groups, st')
      | (None, st') \<Rightarrow> tryUrls E ai us bodies st')"

definition requestBodies :: "env \<Rightarrow> string \<Rightarrow> string list" where
  "requestBodies E projectId =
     [JSON_stringify E (JObj [(''projectId'', JStr projectId)]),
      JSON_stringify E (JObj [(''project'', JStr projectId)])]"

text \<open>The two loops of \<open>fetchAntigravityQuota\<close>, from the initial variables.\<close>

definition antigravityAttempts ::
  "env \<Rightarrow> string \<Rightarrow> jsval \<Rightarrow> AntigravityQuotaGroup list option \<times> attempt_state" where
  "antigravityAttempts E ai file =
     tryUrls E ai (ANTIGRAVITY_QUOTA_URLS E)
       (requestBodies E (resolveAntigravityProjectId E file)) initialAttemptState"

definition fetchAntigravityQuota ::
  "env \<Rightarrow> jsval \<Rightarrow> quota_error + AntigravityQuotaGroup list" where
  "fetchAntigravityQuota E file =
     (let rawAuthIndex = coalesce (dot file ''auth_index'') (dot file ''authIndex'');
          authIndex = normalizeAuthIndexValue E rawAuthIndex
      in requireStr authIndex (PlainError (i18n E ''antigravity_quota.missing_auth_index''))
           (\<lambda>ai.
              case antigravityAttempts E ai file of
                (Some groups, st) \<Rightarrow> Inr groups
              | (None, st) \<Rightarrow>
                  if hadSuccess st then Inr []
                  else Inl (StatusError
                              (if lastError st \<noteq> [] then lastError st
                               else i18n E ''common.unknown_error'')
                              (orElse (priorityStatus st) (lastStatus st)))))"

section \<open>Codex\<close>

text \<open>
  A window of the Codex card. Its field \<^verbatim>\<open>id\<close> is \<open>id'\<close> here, since \<open>id\<close>
  is the identity function.
\<close>

record CodexQuotaWindow =
  id' :: string
  label :: string
  labelKey :: string
  usedPercent :: "real option"
  resetLabel :: string

text \<open>
  \<open>addWindow\<close>, the closure of \<open>buildCodexQuotaWindows\<close> that pushes onto
  \<open>windows\<close>: it takes the list and returns it, extended or not.
\<close>

definition addWindow ::
  "env \<Rightarrow> CodexQuotaWindow list \<Rightarrow> string \<Rightarrow> string \<Rightarrow> jsval \<Rightarrow> jsval \<Rightarrow> jsval \<Rightarrow>
     CodexQuotaWindow list" where
  "addWindow E windows0 wid key window limitReached allowed =
     (if \<not> truthy window then windows0
      else
        (let resetLabel0 = formatCodexResetLabel E window;
             usedPercentRaw =
               normalizeNumberValue E
                 (coalesce (dot window ''used_percent'') (dot window ''usedPercent''));
             isLimitReached = (truthy limitReached \<or> isFalse allowed);
             usedPercent0 =
               orElse usedPercentRaw
                 (if isLimitReached \<and> resetLabel0 \<noteq> ''-'' then Some 100 else None)
         in windows0 @
              [\<lparr>id' = wid, label = i18n E key, labelKey = key, usedPercent = usedPercent0,
                resetLabel = resetLabel0\<rparr>]))"

definition buildCodexQuotaWindows :: "env \<Rightarrow> jsval \<Rightarrow> CodexQuotaWindow list" where
  "buildCodexQuotaWindows E payload =
     (let rateLimit =
            coalesce (coalesce (dot payload ''rate_limit'') (dot payload ''rateLimit'')) JUndefined;
          codeReviewLimit =
            coalesce
              (coalesce (dot payload ''code_review_rate_limit'') (dot payload ''codeReviewRateLimit''))
              JUndefined;
          w0 = [];
          w1 = addWindow E w0 ''primary'' ''codex_quota.primary_window''
                 (coalesce (optDot rateLimit ''primary_window'') (optDot rateLimit ''primaryWindow''))
                 (coalesce (optDot rateLimit ''limit_reached'') (optDot rateLimit ''limitReached''))
                 (optDot rateLimit ''allowed'');
          w2 = addWindow E w1 ''secondary'' ''codex_quota.secondary_window''
                 (coalesce (optDot rateLimit ''secondary_window'')
                    (optDot rateLimit ''secondaryWindow''))
                 (coalesce (optDot rateLimit ''limit_reached'') (optDot rateLimit ''limitReached''))
                 (optDot rateLimit ''allowed'');
          w3 = addWindow E w2 ''code-review'' ''codex_quota.code_review_window''
                 (coalesce (optDot codeReviewLimit ''primary_window'')
                    (optDot codeReviewLimit ''primaryWindow''))
                 (coalesce (optDot codeReviewLimit ''limit_reached'')
                    (optDot codeReviewLimit ''limitReached''))
                 (optDot codeReviewLimit ''allowed'')
      in w3)"

record CodexQuotaData =
  planType :: "string option"
  windows :: "CodexQuotaWindow list"

definition fetchCodexQuota :: "env \<Rightarrow> jsval \<Rightarrow> quota_error + CodexQuotaData" where
  "fetchCodexQuota E file =
     (let rawAuthIndex = coalesce (dot file ''auth_index'') (dot file ''authIndex'');
          authIndex = normalizeAuthIndexValue E rawAuthIndex
      in requireStr authIndex (PlainError (i18n E ''codex_quota.missing_auth_index''))
           (\<lambda>ai.
              let planTypeFromFile = resolveCodexPlanType E file;
                  accountId = resolveCodexChatgptAccountId E file
              in requireStr accountId (PlainError (i18n E ''codex_quota.missing_account_id''))
                   (\<lambda>acc.
                      let requestHeader =
                            AList.update ''Chatgpt-Account-Id'' acc (CODEX_REQUEST_HEADERS E)
                      in case request E 0
                                \<lparr>authIndex = ai, httpMethod = ''GET'', url = CODEX_USAGE_URL E,
                                 header = requestHeader, data = None\<rparr> of
                           Thrown err \<Rightarrow> Inl (Rethrown err)
                         | Returned result \<Rightarrow>
                             if statusCode result < 200 \<or> statusCode result \<ge> 300
                             then Inl (StatusError (getApiCallErrorMessage E result)
                                         (Some (statusCode result)))
                             else
                               (let payload =
                                      parseCodexUsagePayload E
                                        (coalesce (body result) (bodyText result))
                                in if \<not> truthy payload
                                   then Inl (PlainError (i18n E ''codex_quota.empty_windows''))
                                   else
                                     (let planTypeFromUsage =
                                            normalizePlanType E
                                              (coalesce (dot payload ''plan_type'')
                                                 (dot payload ''planType''));
                                          ws = buildCodexQuotaWindows E payload
                                      in Inr \<lparr>planType = orElse planTypeFromUsage planTypeFromFile,
                                               windows = ws\<rparr>)))))"

text \<open>
  The quota state of the Codex card: the data of a fetch with a status, and the error
  of a failed one.
\<close>

record CodexQuotaState = CodexQuotaData +
  status :: string
  error :: "string option"
  errorStatus :: "int option"

text \<open>\<open>CODEX_CONFIG.buildSuccessState\<close>.\<close>

definition buildSuccessState :: "CodexQuotaData \<Rightarrow> CodexQuotaState" where
  "buildSuccessState d =
     \<lparr>planType = planType d, windows = windows d, status = ''success'', error = None,
      errorStatus = None\<rparr>"

text \<open>
  \<open>clampedUsed\<close> of \<open>renderCodexItems\<close>:
  \<^verbatim>\<open>used === null ? null : Math.max(0, Math.min(100, used))\<close>.
\<close>

definition clampedUsed :: "real option \<Rightarrow> real option" where
  "clampedUsed used = (case used of None \<Rightarrow> None | Some u \<Rightarrow> Some (max 0 (min 100 u)))"

text \<open>
  \<open>remaining\<close> of \<open>renderCodexItems\<close>:
  \<^verbatim>\<open>clampedUsed === null ? null : Math.max(0, Math.min(100, 100 - clampedUsed))\<close>.
\<close>

definition remainingPercent :: "real option \<Rightarrow> real option" where
  "remainingPercent clamped =
     (case clamped of None \<Rightarrow> None | Some c \<Rightarrow> Some (max 0 (min 100 (100 - c))))"

text \<open>\<^verbatim>\<open>Math.round(x)\<close>: the integer nearest to \<open>x\<close>, the greater one at a tie.\<close>

definition jsRound :: "real \<Rightarrow> int" where
  "jsRound x = \<lfloor>x + 1 / 2\<rfloor>"

text \<open>
  What \<open>renderCodexItems\<close> builds, without the markup: the percent label of a row
  is \<^verbatim>\<open>--\<close> or a whole number of percent; a node is the plan line (its caption
  and the plan label), the no-access warning, the empty-windows message, or the row of
  a window with its key, window label, percent label, reset label and the percentage
  given to the progress bar.
\<close>

datatype percent_label = Dashes | Percent int

datatype codex_node =
    PlanNode string string
  | WarningNode string
  | MessageNode string
  | RowNode string string percent_label string "real option"

text \<open>A \<^verbatim>\<open>string | null\<close> passed to a helper that takes any value.\<close>

definition stringOrNull :: "string option \<Rightarrow> jsval" where
  "stringOrNull s = (case s of Some v \<Rightarrow> JStr v | None \<Rightarrow> JNull)"

text \<open>\<open>getPlanLabel\<close>, the closure of \<open>renderCodexItems\<close>.\<close>

definition getPlanLabel :: "env \<Rightarrow> string option \<Rightarrow> string option" where
  "getPlanLabel E pt =
     (let normalized = normalizePlanType E (stringOrNull pt)
      in if \<not> truthyStr normalized then None
         else if normalized = Some ''plus'' then Some (i18n E ''codex_quota.plan_plus'')
         else if normalized = Some ''team'' then Some (i18n E ''codex_quota.plan_team'')
         else if normalized = Some ''free'' then Some (i18n E ''codex_quota.plan_free'')
         else if truthyStr pt then pt
         else normalized)"

text \<open>The callback that \<open>renderCodexItems\<close> maps over the windows.\<close>

definition codexRow :: "env \<Rightarrow> CodexQuotaWindow \<Rightarrow> codex_node" where
  "codexRow E window =
     (let used = usedPercent window;
          clamped = clampedUsed used;
          remaining = remainingPercent clamped;
          percentLabel =
            (case remaining of None \<Rightarrow> Dashes | Some x \<Rightarrow> Percent (jsRound x));
          windowLabel =
            (if labelKey window \<noteq> [] then i18n E (labelKey window) else label window)
      in RowNode (id' window) windowLabel percentLabel (resetLabel window) remaining)"

definition renderCodexItems :: "env \<Rightarrow> CodexQuotaState \<Rightarrow> codex_node list" where
  "renderCodexItems E quota =
     (let ws = windows quota;
          pt = planType quota;
          planLabel = getPlanLabel E pt;
          isFreePlan = (normalizePlanType E (stringOrNull pt) = Some ''free'');
          nodes =
            (case planLabel of
               None \<Rightarrow> []
             | Some l \<Rightarrow>
                 if l \<noteq> [] then [PlanNode (i18n E ''codex_quota.plan_label'') l] else [])
      in if isFreePlan then nodes @ [WarningNode (i18n E ''codex_quota.no_access'')]
         else if length ws = 0
         then nodes @ [MessageNode (i18n E ''codex_quota.empty_windows'')]
         else nodes @ map (codexRow E) ws)"

section \<open>Gemini CLI\<close>

record GeminiCliParsedBucket =
  modelId :: string
  tokenType :: "string option"
  remainingFraction :: "real option"
  remainingAmount :: "real option"
  resetTime :: "string option"

text \<open>
  The callback that \<open>fetchGeminiCliQuota\<close> maps over the raw buckets; \<open>None\<close> is
  its \<^verbatim>\<open>null\<close>, which the filter after it drops.
\<close>

definition parseBucket :: "env \<Rightarrow> jsval \<Rightarrow> GeminiCliParsedBucket option" where
  "parseBucket E bucket =
     (case normalizeStringValue E (coalesce (dot bucket ''modelId'') (dot bucket ''model_id'')) of
        None \<Rightarrow> None
      | Some mid \<Rightarrow>
          if mid = [] then None
          else
            (let tokenType0 =
                   normalizeStringValue E
                     (coalesce (dot bucket ''tokenType'') (dot bucket ''token_type''));
                 remainingFractionRaw =
                   normalizeQuotaFraction E
                     (coalesce (dot bucket ''remainingFraction'') (dot bucket ''remaining_fraction''));
                 remainingAmount0 =
                   normalizeNumberValue E
                     (coalesce (dot bucket ''remainingAmount'') (dot bucket ''remaining_amount''));
                 resetTime0 =
                   normalizeStringValue E
                     (coalesce (dot bucket ''resetTime'') (dot bucket ''reset_time''));
                 fallbackFraction =
                   (case remainingAmount0 of
                      Some amount \<Rightarrow> if amount \<le> 0 then Some 0 else None
                    | None \<Rightarrow> if truthyStr resetTime0 then Some 0 else None);
                 remainingFraction0 = orElse remainingFractionRaw fallbackFraction
             in Some \<lparr>modelId = mid, tokenType = tokenType0,
                       remainingFraction = remainingFraction0,
                       remainingAmount = remainingAmount0, resetTime = resetTime0\<rparr>))"

text \<open>\<open>parsedBuckets\<close>: the callback mapped over the buckets, nulls filtered out.\<close>

definition parsedBuckets :: "env \<Rightarrow> jsval list \<Rightarrow> GeminiCliParsedBucket list" where
  "parsedBuckets E buckets = [p. Some p \<leftarrow> map (parseBucket E) buckets]"

section \<open>GitHub Copilot\<close>

record GithubCopilotQuotaData =
  expiresAt :: "real option"
  refreshIn :: "real option"
  chatQuota :: "real option"
  chatPercent :: "real option"
  chatUnlimited :: bool
  completionsQuota :: "real option"
  completionsPercent :: "real option"
  completionsUnlimited :: bool
  premiumQuota :: "real option"
  premiumPercent :: "real option"
  premiumEntitlement :: "real option"
  quotaResetDate :: "real option"
  sku :: "string option"

text \<open>\<^verbatim>\<open>a ?? b ?? ... ?? z\<close>.\<close>

fun coalesceAll :: "jsval list \<Rightarrow> jsval" where
  "coalesceAll [] = JUndefined"
| "coalesceAll [v] = v"
| "coalesceAll (v # vs) = coalesce v (coalesceAll vs)"

text \<open>\<^verbatim>\<open>snapshot.quota_remaining ?? snapshot.quotaRemaining ?? snapshot.remaining\<close>.\<close>

definition quotaRemainingField :: "jsval \<Rightarrow> jsval" where
  "quotaRemainingField snapshot =
     coalesceAll [dot snapshot ''quota_remaining'', dot snapshot ''quotaRemaining'',
                  dot snapshot ''remaining'']"

text \<open>\<^verbatim>\<open>snapshot.percent_remaining ?? snapshot.percentRemaining\<close>.\<close>

definition percentRemainingField :: "jsval \<Rightarrow> jsval" where
  "percentRemainingField snapshot =
     coalesce (dot snapshot ''percent_remaining'') (dot snapshot ''percentRemaining'')"

text \<open>
  The reset date of \<open>fetchGithubCopilotQuota\<close>: \<open>quotaResetDate\<close> starts as
  null; a truthy date string is parsed, and sets it only when the time is not
  \<^verbatim>\<open>NaN\<close>, to \<^verbatim>\<open>Math.floor(time / 1000)\<close>; the legacy number is read in the
  \<^verbatim>\<open>else\<close> branch of the test of the string.
\<close>

definition resolveQuotaResetDate ::
  "env \<Rightarrow> string option \<Rightarrow> real option \<Rightarrow> real option" where
  "resolveQuotaResetDate E quotaResetDateStr limitedResetDate =
     (if truthyStr quotaResetDateStr then
        (case Date_getTime E (case quotaResetDateStr of Some s \<Rightarrow> s | None \<Rightarrow> []) of
           Some ms \<Rightarrow> Some (of_int (ms div 1000))
         | None \<Rightarrow> None)
      else if limitedResetDate \<noteq> None then limitedResetDate
      else None)"

text \<open>
  \<open>fetchGithubCopilotQuota\<close> from the parsed payload on: the part that never
  throws.
\<close>

definition githubCopilotQuotaData :: "env \<Rightarrow> jsval \<Rightarrow> GithubCopilotQuotaData" where
  "githubCopilotQuotaData E payload =
     (let expiresAt0 =
            normalizeNumberValue E (coalesce (dot payload ''expires_at'') (dot payload ''expiresAt''));
          refreshIn0 =
            normalizeNumberValue E (coalesce (dot payload ''refresh_in'') (dot payload ''refreshIn''));
          quotaSnapshots =
            coalesce (dot payload ''quota_snapshots'') (dot payload ''quotaSnapshots'');
          hasSnapshots = (truthy quotaSnapshots \<and> typeofObject quotaSnapshots);
          chatSnapshot = dot quotaSnapshots ''chat'';
          completionsSnapshot = dot quotaSnapshots ''completions'';
          premiumSnapshot =
            coalesce (dot quotaSnapshots ''premium_interactions'')
              (dot quotaSnapshots ''premiumInteractions'');
          hasChat = (hasSnapshots \<and> truthy chatSnapshot \<and> typeofObject chatSnapshot);
          hasCompletions =
            (hasSnapshots \<and> truthy completionsSnapshot \<and> typeofObject completionsSnapshot);
          hasPremium = (hasSnapshots \<and> truthy premiumSnapshot \<and> typeofObject premiumSnapshot);
          chatQuota0 =
            (if hasChat then normalizeNumberValue E (quotaRemainingField chatSnapshot) else None);
          chatPercent0 =
            (if hasChat then normalizeNumberValue E (percentRemainingField chatSnapshot) else None);
          chatUnlimited0 = (if hasChat then truthy (dot chatSnapshot ''unlimited'') else False);
          completionsQuota0 =
            (if hasCompletions
             then normalizeNumberValue E (quotaRemainingField completionsSnapshot) else None);
          completionsPercent0 =
            (if hasCompletions
             then normalizeNumberValue E (percentRemainingField completionsSnapshot) else None);
          completionsUnlimited0 =
            (if hasCompletions then truthy (dot completionsSnapshot ''unlimited'') else False);
          premiumQuota0 =
            (if hasPremium
             then normalizeNumberValue E (quotaRemainingField premiumSnapshot) else None);
          premiumPercent0 =
            (if hasPremium
             then normalizeNumberValue E (percentRemainingField premiumSnapshot) else None);
          premiumEntitlement0 =
            (if hasPremium
             then normalizeNumberValue E (dot premiumSnapshot ''entitlement'') else None);
          quotas = coalesce (dot payload ''limited_user_quotas'') (dot payload ''limitedUserQuotas'');
          legacy =
            ((chatQuota0 = None \<or> completionsQuota0 = None)
             \<and> truthy quotas \<and> typeofObject quotas);
          chatQuota1 =
            (if legacy \<and> chatQuota0 = None
             then normalizeNumberValue E (dot quotas ''chat'') else chatQuota0);
          completionsQuota1 =
            (if legacy \<and> completionsQuota0 = None
             then normalizeNumberValue E (dot quotas ''completions'') else completionsQuota0);
          quotaResetDateStr =
            normalizeStringValue E
              (coalesce (dot payload ''quota_reset_date'') (dot payload ''quotaResetDate''));
          limitedResetDate =
            normalizeNumberValue E
              (coalesce (dot payload ''limited_user_reset_date'')
                 (dot payload ''limitedUserResetDate''));
          quotaResetDate0 = resolveQuotaResetDate E quotaResetDateStr limitedResetDate;
          sku0 =
            normalizeStringValue E
              (coalesceAll
                 (map (dot payload)
                    [''sku'', ''access_type_sku'', ''accessTypeSku'', ''copilot_plan'',
                     ''copilotPlan'', ''plan'', ''plan_type'', ''planType'', ''subscription'',
                     ''subscription_type'', ''subscriptionType'', ''license'', ''license_type'',
                     ''licenseType'']))
      in \<lparr>expiresAt = expiresAt0, refreshIn = refreshIn0, chatQuota = chatQuota1,
          chatPercent = chatPercent0, chatUnlimited = chatUnlimited0,
          completionsQuota = completionsQuota1, completionsPercent = completionsPercent0,
          completionsUnlimited = completionsUnlimited0, premiumQuota = premiumQuota0,
          premiumPercent = premiumPercent0, premiumEntitlement = premiumEntitlement0,
          quotaResetDate = quotaResetDate0, sku = sku0\<rparr>)"

definition fetchGithubCopilotQuota ::
  "env \<Rightarrow> jsval \<Rightarrow> quota_error + GithubCopilotQuotaData" where
  "fetchGithubCopilotQuota E file =
     (let rawAuthIndex = coalesce (dot file ''auth_index'') (dot file ''authIndex'');
          authIndex = normalizeAuthIndexValue E rawAuthIndex
      in requireStr authIndex (PlainError (i18n E ''github_copilot_quota.missing_auth_index''))
           (\<lambda>ai.
              case request E 0
                     \<lparr>authIndex = ai, httpMethod = ''GET'', url = GITHUB_COPILOT_USAGE_URL E,
                      header = GITHUB_COPILOT_REQUEST_HEADERS E, data = None\<rparr> of
                Thrown err \<Rightarrow> Inl (Rethrown err)
              | Returned result \<Rightarrow>
                  if statusCode result < 200 \<or> statusCode result \<ge> 300
                  then Inl (StatusError (getApiCallErrorMessage E result)
                              (Some (statusCode result)))
                  else
                    (let payload =
                           parseGithubCopilotTokenPayload E
                             (coalesce (body result) (bodyText result))
                     in if \<not> truthy payload
                        then Inl (PlainError (i18n E ''github_copilot_quota.invalid_response''))
                        else Inr (githubCopilotQuotaData E payload))))"

section \<open>The quota store\<close>

text \<open>
  \<^verbatim>\<open>type QuotaUpdater<T> = T | ((prev: T) => T)\<close>, and the state of the store: one
  map from a key to a quota state for each provider. \<^verbatim>\<open>set\<close> merges the object it is
  given into the state, so a setter writes the one field it names.
\<close>

datatype 'a QuotaUpdater = Value 'a | Updater "'a \<Rightarrow> 'a"

fun resolveUpdater :: "'a QuotaUpdater \<Rightarrow> 'a \<Rightarrow> 'a" where
  "resolveUpdater (Updater f) prev = f prev"
| "resolveUpdater (Value v) prev = v"

record ('a, 'c, 'g, 'k, 'h) QuotaStoreState =
  antigravityQuota :: "string \<rightharpoonup> 'a"
  codexQuota :: "string \<rightharpoonup> 'c"
  geminiCliQuota :: "string \<rightharpoonup> 'g"
  kiroQuota :: "string \<rightharpoonup> 'k"
  githubCopilotQuota :: "string \<rightharpoonup> 'h"

definition setAntigravityQuota ::
  "(string \<rightharpoonup> 'a) QuotaUpdater \<Rightarrow> ('a, 'c, 'g, 'k, 'h) QuotaStoreState \<Rightarrow>
     ('a, 'c, 'g, 'k, 'h) QuotaStoreState" where
  "setAntigravityQuota updater state =
     state\<lparr>antigravityQuota := resolveUpdater updater (antigravityQuota state)\<rparr>"

definition setCodexQuota ::
  "(string \<rightharpoonup> 'c) QuotaUpdater \<Rightarrow> ('a, 'c, 'g, 'k, 'h) QuotaStoreState \<Rightarrow>
     ('a, 'c, 'g, 'k, 'h) QuotaStoreState" where
  "setCodexQuota updater state =
     state\<lparr>codexQuota := resolveUpdater updater (codexQuota state)\<rparr>"

definition setGeminiCliQuota ::
  "(string \<rightharpoonup> 'g) QuotaUpdater \<Rightarrow> ('a, 'c, 'g, 'k, 'h) QuotaStoreState \<Rightarrow>
     ('a, 'c, 'g, 'k, 'h) QuotaStoreState" where
  "setGeminiCliQuota updater state =
     state\<lparr>geminiCliQuota := resolveUpdater updater (geminiCliQuota state)\<rparr>"

definition setKiroQuota ::
  "(string \<rightharpoonup> 'k) QuotaUpdater \<Rightarrow> ('a, 'c, 'g, 'k, 'h) QuotaStoreState \<Rightarrow>
     ('a, 'c, 'g, 'k, 'h) QuotaStoreState" where
  "setKiroQuota updater state =
     state\<lparr>kiroQuota := resolveUpdater updater (kiroQuota state)\<rparr>"

definition setGithubCopilotQuota ::
  "(string \<rightharpoonup> 'h) QuotaUpdater \<Rightarrow> ('a, 'c, 'g, 'k, 'h) QuotaStoreState \<Rightarrow>
     ('a, 'c, 'g, 'k, 'h) QuotaStoreState" where
  "setGithubCopilotQuota updater state =
     state\<lparr>githubCopilotQuota := resolveUpdater updater (githubCopilotQuota state)\<rparr>"

definition clearQuotaCache ::
  "('a, 'c, 'g, 'k, 'h) QuotaStoreState \<Rightarrow> ('a, 'c, 'g, 'k, 'h) QuotaStoreState" where
  "clearQuotaCache state =
     state\<lparr>antigravityQuota := Map.empty, codexQuota := Map.empty,
           geminiCliQuota := Map.empty, kiroQuota := Map.empty,
           githubCopilotQuota := Map.empty\<rparr>"

section \<open>What a run of the attempt loop observed\<close>

text \<open>
  The specification of the Antigravity loop speaks of the attempts of a run: the
  status an attempt returned, the first 403 or 404 seen, the last status seen, the last
  error message recorded. These are functions of the answers of the transport, in the
  order of the requests.
\<close>

text \<open>The attempt returned a status in the range 200 to 299.\<close>

definition returned2xx :: "outcome \<Rightarrow> bool" where
  "returned2xx out =
     (case out of Returned r \<Rightarrow> 200 \<le> statusCode r \<and> statusCode r < 300 | Thrown _ \<Rightarrow> False)"

text \<open>The attempt returned a status outside that range.\<close>

definition returnedNon2xx :: "outcome \<Rightarrow> bool" where
  "returnedNon2xx out =
     (case out of Returned r \<Rightarrow> statusCode r < 200 \<or> statusCode r \<ge> 300 | Thrown _ \<Rightarrow> False)"

text \<open>
  The status an attempt gives the loop: the status code of a non-2xx result, or the
  status that \<open>getStatusFromError\<close> finds in a thrown value, when it is not zero.
\<close>

definition observedStatus :: "env \<Rightarrow> outcome \<Rightarrow> int option" where
  "observedStatus E out =
     (case out of
        Returned r \<Rightarrow>
          if statusCode r < 200 \<or> statusCode r \<ge> 300 then Some (statusCode r) else None
      | Thrown err \<Rightarrow>
          (case getStatusFromError E err of
             Some s \<Rightarrow> if s \<noteq> 0 then Some s else None
           | None \<Rightarrow> None))"

text \<open>The first status 403 or 404 among the attempts, in their order.\<close>

fun firstPriorityStatus :: "env \<Rightarrow> outcome list \<Rightarrow> int option" where
  "firstPriorityStatus E [] = None"
| "firstPriorityStatus E (out # outs) =
     (case observedStatus E out of
        Some s \<Rightarrow> if s = 403 \<or> s = 404 then Some s else firstPriorityStatus E outs
      | None \<Rightarrow> firstPriorityStatus E outs)"

text \<open>The status of the last attempt that had one.\<close>

fun lastSeenStatus :: "env \<Rightarrow> outcome list \<Rightarrow> int option" where
  "lastSeenStatus E [] = None"
| "lastSeenStatus E (out # outs) = orElse (lastSeenStatus E outs) (observedStatus E out)"

text \<open>
  The message an attempt that does not end the loop records: the error message of a
  non-2xx result, the empty-models text after a 2xx result, the message of a thrown
  error, the unknown-error text for any other thrown value.
\<close>

definition recordedMessage :: "env \<Rightarrow> outcome \<Rightarrow> string" where
  "recordedMessage E out =
     (case out of
        Returned r \<Rightarrow>
          if statusCode r < 200 \<or> statusCode r \<ge> 300 then getApiCallErrorMessage E r
          else i18n E ''antigravity_quota.empty_models''
      | Thrown (JsError m _) \<Rightarrow> m
      | Thrown (NonError _) \<Rightarrow> i18n E ''common.unknown_error'')"

text \<open>The message of the last attempt; empty when there was no attempt.\<close>

fun lastRecordedMessage :: "env \<Rightarrow> outcome list \<Rightarrow> string" where
  "lastRecordedMessage E [] = []"
| "lastRecordedMessage E (out # outs) =
     (if outs = [] then recordedMessage E out else lastRecordedMessage E outs)"

text \<open>
  How the variables after a part of the run relate to those before it and to the
  attempts \<open>new\<close> made in between.
\<close>

definition traceInv ::
  "env \<Rightarrow> attempt_state \<Rightarrow> AntigravityQuotaGroup list option \<Rightarrow> attempt_state \<Rightarrow>
     (ApiCallRequest \<times> outcome) list \<Rightarrow> bool" where
  "traceInv E st res st' new =
     (attempts st' = attempts st @ new \<and>
      hadSuccess st' = (hadSuccess st \<or> list_ex returned2xx (map snd new)) \<and>
      priorityStatus st' = orElse (priorityStatus st) (firstPriorityStatus E (map snd new)) \<and>
      lastStatus st' = orElse (lastSeenStatus E (map snd new)) (lastStatus st) \<and>
      (res = None \<longrightarrow>
         lastError st' = (if new = [] then lastError st else lastRecordedMessage E (map snd new))) \<and>
      (res \<noteq> None \<longrightarrow> hadSuccess st'))"

text \<open>A value that is an object and not an array: a model map.\<close>

definition isPlainObject :: "jsval \<Rightarrow> bool" where
  "isPlainObject v = (case v of JObj kvs \<Rightarrow> True | _ \<Rightarrow> False)"

section \<open>A sample environment\<close>

text \<open>
  Modelled from the spec: the helpers of \<^verbatim>\<open>@/utils/quota\<close> and
  \<^verbatim>\<open>@/services/api\<close> are not among the sources. The spec describes them as pure
  functions that turn loosely-typed JSON fields into typed values, tolerant of missing
  data, and as opaque collaborators. The sample environment fixes them only so far: a
  JSON string or number is its own normal form and a missing field is null; a parsed
  payload is the JSON object itself; the error message of a result is its body text;
  the translation of a key is the key. It is used where a theorem is evaluated at a
  concrete input, and nowhere else: no theorem about all environments depends on it.
\<close>

fun sampleString :: "jsval \<Rightarrow> string option" where
  "sampleString (JStr s) = Some s"
| "sampleString _ = None"

fun sampleNumber :: "jsval \<Rightarrow> real option" where
  "sampleNumber (JNum x) = Some x"
| "sampleNumber _ = None"

fun samplePayload :: "jsval \<Rightarrow> jsval" where
  "samplePayload (JObj kvs) = JObj kvs"
| "samplePayload _ = JNull"

text \<open>A reset label: \<open>-\<close> for a window without a reset time.\<close>

fun sampleResetLabel :: "jsval \<Rightarrow> string" where
  "sampleResetLabel w = (case dot w ''reset_at'' of JNum x \<Rightarrow> ''01/01 00:00'' | _ \<Rightarrow> ''-'')"

definition sampleErrorMessage :: "ApiCallResult \<Rightarrow> string" where
  "sampleErrorMessage r = (case bodyText r of JStr s \<Rightarrow> s | _ \<Rightarrow> ''Request failed'')"

fun sampleStatusFromError :: "thrown \<Rightarrow> int option" where
  "sampleStatusFromError (JsError m props) =
     (case dot props ''status'' of JNum x \<Rightarrow> Some (floor x) | _ \<Rightarrow> None)"
| "sampleStatusFromError (NonError v) = None"

fun sampleGroups :: "jsval \<Rightarrow> AntigravityQuotaGroup list" where
  "sampleGroups (JObj kvs) = map (\<lambda>kv. QuotaGroup (fst kv) (fst kv) [fst kv] 1 None) kvs"
| "sampleGroups _ = []"

fun sampleStringify :: "jsval \<Rightarrow> string" where
  "sampleStringify (JObj [(k, JStr s)]) = ''{'' @ k @ '':'' @ s @ ''}''"
| "sampleStringify _ = ''null''"

text \<open>
  The environment for a given transport. No credential text can be downloaded, so the
  project id is the default one; one date string parses.
\<close>

definition sampleEnv :: "(nat \<Rightarrow> ApiCallRequest \<Rightarrow> outcome) \<Rightarrow> env" where
  "sampleEnv transport =
     \<lparr>i18n = (\<lambda>key. key),
      normalizeAuthIndexValue = sampleString,
      normalizeStringValue = sampleString,
      normalizeNumberValue = sampleNumber,
      normalizeQuotaFraction = sampleNumber,
      normalizePlanType = sampleString,
      formatCodexResetLabel = sampleResetLabel,
      getApiCallErrorMessage = sampleErrorMessage,
      getStatusFromError = sampleStatusFromError,
      parseAntigravityPayload = samplePayload,
      parseCodexUsagePayload = samplePayload,
      parseGithubCopilotTokenPayload = samplePayload,
      buildAntigravityQuotaGroups = sampleGroups,
      resolveCodexPlanType = (\<lambda>file. sampleString (dot file ''plan_type'')),
      resolveCodexChatgptAccountId = (\<lambda>file. sampleString (dot file ''account_id'')),
      ANTIGRAVITY_QUOTA_URLS =
        [''https://one.example/models'', ''https://two.example/models'',
         ''https://three.example/models''],
      ANTIGRAVITY_REQUEST_HEADERS = [],
      CODEX_USAGE_URL = ''https://codex.example/usage'',
      CODEX_REQUEST_HEADERS = [],
      GITHUB_COPILOT_USAGE_URL = ''https://copilot.example/token'',
      GITHUB_COPILOT_REQUEST_HEADERS = [],
      request = transport,
      downloadText = (\<lambda>name. None),
      JSON_parse = Map.empty,
      JSON_stringify = sampleStringify,
      Date_getTime = [''2025-01-01T00:00:00Z'' \<mapsto> 1735689600000]\<rparr>"

definition sampleFile :: jsval where
  "sampleFile =
     JObj [(''name'', JStr ''account.json''), (''auth_index'', JStr ''7''),
           (''account_id'', JStr ''acct-1'')]"

text \<open>A result with a status code and a body text, and one with a JSON body.\<close>

definition respond :: "int \<Rightarrow> string \<Rightarrow> outcome" where
  "respond code msg = Returned \<lparr>statusCode = code, body = JUndefined, bodyText = JStr msg\<rparr>"

definition respondJson :: "int \<Rightarrow> jsval \<Rightarrow> outcome" where
  "respondJson code v = Returned \<lparr>statusCode = code, body = v, bodyText = JStr []\<rparr>"

text \<open>The answers of a transport, listed in the order of the requests.\<close>

definition scripted :: "outcome list \<Rightarrow> nat \<Rightarrow> ApiCallRequest \<Rightarrow> outcome" where
  "scripted outs n rq = (if n < length outs then outs ! n else respond 500 ''no answer'')"

section \<open>The project id of a credential file\<close>

text \<open>
  The three values that \<open>resolveAntigravityProjectId\<close> tests, in the order in which
  it tests them, read off its source. The project id of an object is its
  \<^verbatim>\<open>project_id\<close>, or its \<^verbatim>\<open>projectId\<close> when the former is absent or null, as
  \<open>normalizeStringValue\<close> returns it; \<open>installed\<close> and \<open>web\<close> count when they
  hold an object. The resolver returns the first of the three that is a non-empty
  string.
\<close>

definition projectIdIn :: "env \<Rightarrow> jsval \<Rightarrow> string option" where
  "projectIdIn E obj =
     normalizeStringValue E (coalesce (dot obj ''project_id'') (dot obj ''projectId''))"

definition isObjectValue :: "jsval \<Rightarrow> bool" where
  "isObjectValue v = (case v of JObj kvs \<Rightarrow> True | JArr vs \<Rightarrow> True | _ \<Rightarrow> False)"

definition projectIdCandidates :: "env \<Rightarrow> jsval \<Rightarrow> string option list" where
  "projectIdCandidates E parsed =
     [projectIdIn E parsed,
      if isObjectValue (dot parsed ''installed'')
      then projectIdIn E (dot parsed ''installed'') else None,
      if isObjectValue (dot parsed ''web'') then projectIdIn E (dot parsed ''web'') else None]"

fun firstNonEmpty :: "string option list \<Rightarrow> string option" where
  "firstNonEmpty [] = None"
| "firstNonEmpty (None # xs) = firstNonEmpty xs"
| "firstNonEmpty (Some s # xs) = (if s \<noteq> [] then Some s else firstNonEmpty xs)"

text \<open>
  Modelled from the spec: the search as the specification words it, over the top-level
  \<^verbatim>\<open>project_id\<close> and \<^verbatim>\<open>projectId\<close>, then \<^verbatim>\<open>installed.project_id\<close>, then
  \<^verbatim>\<open>web.project_id\<close>.
\<close>

definition statedProjectIdCandidates :: "env \<Rightarrow> jsval \<Rightarrow> string option list" where
  "statedProjectIdCandidates E parsed =
     [normalizeStringValue E (dot parsed ''project_id''),
      normalizeStringValue E (dot parsed ''projectId''),
      normalizeStringValue E (dot (dot parsed ''installed'') ''project_id''),
      normalizeStringValue E (dot (dot parsed ''web'') ''project_id'')]"

section \<open>The usage windows of a Codex payload\<close>

text \<open>
  The three usage windows a Codex payload can hold, each under the id of the window
  built from it: the primary and the secondary window of the rate limit and the
  primary window of the code-review rate limit. A window is present when it is truthy.
  The payload's own percentage of a window is its \<^verbatim>\<open>used_percent\<close>, or its
  \<^verbatim>\<open>usedPercent\<close> when the former is absent or null, as \<open>normalizeNumberValue\<close>
  returns it.
\<close>

definition codexUsageWindows :: "jsval \<Rightarrow> (string \<times> jsval) list" where
  "codexUsageWindows payload =
     (let rateLimit = coalesce (dot payload ''rate_limit'') (dot payload ''rateLimit'');
          codeReviewLimit =
            coalesce (dot payload ''code_review_rate_limit'') (dot payload ''codeReviewRateLimit'')
      in [(''primary'',
           coalesce (optDot rateLimit ''primary_window'') (optDot rateLimit ''primaryWindow'')),
          (''secondary'',
           coalesce (optDot rateLimit ''secondary_window'') (optDot rateLimit ''secondaryWindow'')),
          (''code-review'',
           coalesce (optDot codeReviewLimit ''primary_window'')
             (optDot codeReviewLimit ''primaryWindow''))])"

definition presentCodexWindows :: "jsval \<Rightarrow> (string \<times> jsval) list" where
  "presentCodexWindows payload = filter (\<lambda>s. truthy (snd s)) (codexUsageWindows payload)"

definition usedPercentField :: "env \<Rightarrow> jsval \<Rightarrow> real option" where
  "usedPercentField E window =
     normalizeNumberValue E (coalesce (dot window ''used_percent'') (dot window ''usedPercent''))"

text \<open>
  How a built window relates to the usage window it comes from: it has the id of that
  window; the payload's own percentage, when there is one, is its used percentage as
  it is; without one its used percentage is null or the synthesized 100.
\<close>

definition builtFrom :: "env \<Rightarrow> CodexQuotaWindow \<Rightarrow> string \<times> jsval \<Rightarrow> bool" where
  "builtFrom E w s =
     (id' w = fst s
      \<and> (\<forall>p. usedPercentField E (snd s) = Some p \<longrightarrow> usedPercent w = Some p)
      \<and> (usedPercentField E (snd s) = None \<longrightarrow>
            usedPercent w = None \<or> usedPercent w = Some 100))"

text \<open>
  The rows among rendered nodes, each as the key of its window and the percentage
  given to the progress bar.
\<close>

fun rowPercents :: "codex_node list \<Rightarrow> (string \<times> real option) list" where
  "rowPercents [] = []"
| "rowPercents (RowNode k wl pl rl pct # nodes) = (k, pct) # rowPercents nodes"
| "rowPercents (node # nodes) = rowPercents nodes"

text \<open>Three URLs answering 500, 403, 404, and answering 404, 403, 500.\<close>

definition statuses500_403_404 :: "nat \<Rightarrow> ApiCallRequest \<Rightarrow> outcome" where
  "statuses500_403_404 =
     scripted [respond 500 ''server error'', respond 403 ''forbidden'', respond 404 ''not found'']"

definition statuses404_403_500 :: "nat \<Rightarrow> ApiCallRequest \<Rightarrow> outcome" where
  "statuses404_403_500 =
     scripted [respond 404 ''not found'', respond 403 ''forbidden'', respond 500 ''server error'']"

text \<open>
  A run without a 2xx answer: 500 at the first URL; at the second a thrown error with
  status 404, then 503; 400 at the third.
\<close>

definition failingTransport :: "nat \<Rightarrow> ApiCallRequest \<Rightarrow> outcome" where
  "failingTransport =
     scripted [respond 500 ''boom'',
               Thrown (JsError ''timeout'' (JObj [(''status'', JNum 404)])),
               respond 503 ''unavailable'',
               respond 400 ''bad request'']"

text \<open>
  A run with a 2xx answer and no groups: the first URL answers 200 with the array
  \<^verbatim>\<open>[]\<close> as models, then 500; the other URLs answer 500.
\<close>

definition emptyModelsTransport :: "nat \<Rightarrow> ApiCallRequest \<Rightarrow> outcome" where
  "emptyModelsTransport =
     scripted [respondJson 200 (JObj [(''models'', JArr [])]),
               respond 500 ''first'', respond 500 ''second'', respond 500 ''third'']"

text \<open>
  The first URL answers 400 with an unknown-field message to both bodies; the second
  answers 400 with another message; the third answers 500.
\<close>

definition unknownFieldMessage :: string where
  "unknownFieldMessage =
     ''Invalid JSON payload received. Unknown name projectId: Cannot find field.''"

definition unknownFieldTransport :: "nat \<Rightarrow> ApiCallRequest \<Rightarrow> outcome" where
  "unknownFieldTransport =
     scripted [respond 400 unknownFieldMessage, respond 400 unknownFieldMessage,
               respond 400 ''bad request'', respond 500 ''server error'']"

text \<open>
  The environment in which the credential file downloads as the given text and that
  text, trimmed, parses to the given value.
\<close>

definition credentialEnv :: "jstext \<Rightarrow> jsval \<Rightarrow> env" where
  "credentialEnv text parsed =
     (sampleEnv (scripted []))
       \<lparr>downloadText := (\<lambda>name. Some text), JSON_parse := [trim text \<mapsto> parsed]\<rparr>"

text \<open>
  A credential file whose project id is under \<^verbatim>\<open>installed.projectId\<close> only, as
  text and as the value it parses to.
\<close>

definition camelCredentialText :: jstext where
  "camelCredentialText = codeUnits ''{\"installed\":{\"projectId\":\"inst\"}}''"

definition camelCredential :: jsval where
  "camelCredential = JObj [(''installed'', JObj [(''projectId'', JStr ''inst'')])]"

text \<open>
  A Codex usage payload whose primary window reports 150 percent used and whose
  secondary window reports 30.
\<close>

definition overusedPayload :: jsval where
  "overusedPayload =
     JObj [(''plan_type'', JStr ''plus''),
           (''rate_limit'',
            JObj [(''primary_window'', JObj [(''used_percent'', JNum 150)]),
                  (''secondary_window'', JObj [(''used_percent'', JNum 30)])])]"


text \<open>
  A Copilot token payload with a reset-date string that is no date and a legacy
  numeric reset date, and one with the legacy date only.
\<close>

definition badDatePayload :: jsval where
  "badDatePayload =
     JObj [(''quota_reset_date'', JStr ''invalid''),
           (''limited_user_reset_date'', JNum 1700000000)]"

definition legacyDatePayload :: jsval where
  "legacyDatePayload = JObj [(''limited_user_reset_date'', JNum 1700000000)]"

definition isoDatePayload :: jsval where
  "isoDatePayload =
     JObj [(''quota_reset_date'', JStr ''2025-01-01T00:00:00Z''),
           (''limited_user_reset_date'', JNum 1700000000)]"

section \<open>Properties\<close>

subsection \<open>The attempt loop and its trace\<close>

lemma orElse_None2 [simp]: "orElse a None = a"
  by (cases a) auto

lemma orElse_assoc: "orElse (orElse a b) c = orElse a (orElse b c)"
  by (cases a) auto

lemma firstPriorityStatus_append:
  "firstPriorityStatus E (xs @ ys) = orElse (firstPriorityStatus E xs) (firstPriorityStatus E ys)"
  by (induction xs) (auto split: option.splits)

lemma lastSeenStatus_append:
  "lastSeenStatus E (xs @ ys) = orElse (lastSeenStatus E ys) (lastSeenStatus E xs)"
  by (induction xs) (auto simp: orElse_assoc)

lemma lastRecordedMessage_append:
  "ys \<noteq> [] \<Longrightarrow> lastRecordedMessage E (xs @ ys) = lastRecordedMessage E ys"
  by (induction xs) auto

lemma traceInv_refl: "traceInv E st None st []"
  by (simp add: traceInv_def)

lemma traceInv_stop: "(res \<noteq> None \<longrightarrow> hadSuccess st) \<Longrightarrow> traceInv E st res st []"
  by (simp add: traceInv_def)

lemma traceInv_step:
  assumes "traceInv E st1 res st' new"
    and "attempts st1 = attempts st @ [a]"
    and "hadSuccess st1 = (hadSuccess st \<or> returned2xx (snd a))"
    and "priorityStatus st1 = orElse (priorityStatus st) (firstPriorityStatus E [snd a])"
    and "lastStatus st1 = orElse (observedStatus E (snd a)) (lastStatus st)"
    and "res = None \<longrightarrow> lastError st1 = recordedMessage E (snd a)"
  shows "traceInv E st res st' (a # new)"
  using assms
  by (auto simp: traceInv_def orElse_assoc split: option.splits)

lemma traceInv_trans:
  assumes "traceInv E st None st1 new1" and "traceInv E st1 res st' new2"
  shows "traceInv E st res st' (new1 @ new2)"
  using assms
  by (auto simp: traceInv_def orElse_assoc firstPriorityStatus_append lastSeenStatus_append
        lastRecordedMessage_append)

text \<open>
  One attempt: either the loop goes on with the later bodies, or it stops here; in both
  cases the variables have taken up this attempt.
\<close>

lemma attemptBodies_unfold:
  assumes "attemptBodies E ai u (b # bs) st = (res, st')"
  defines "a \<equiv> (antigravityRequest E ai u b,
                  request E (length (attempts st)) (antigravityRequest E ai u b))"
  shows "\<exists>st1. (attemptBodies E ai u bs st1 = (res, st')
                 \<or> (st' = st1 \<and> (res \<noteq> None \<longrightarrow> hadSuccess st1)))
            \<and> attempts st1 = attempts st @ [a]
            \<and> hadSuccess st1 = (hadSuccess st \<or> returned2xx (snd a))
            \<and> priorityStatus st1 = orElse (priorityStatus st) (firstPriorityStatus E [snd a])
            \<and> lastStatus st1 = orElse (observedStatus E (snd a)) (lastStatus st)
            \<and> (res = None \<longrightarrow> lastError st1 = recordedMessage E (snd a))"
  using assms(1) unfolding a_def
  by (auto simp: Let_def observedStatus_def returned2xx_def recordedMessage_def
      split: outcome.splits if_splits option.splits thrown.splits)

lemma attemptBodies_trace:
  "attemptBodies E ai u bs st = (res, st') \<Longrightarrow> \<exists>new. traceInv E st res st' new"
proof (induction bs arbitrary: st)
  case Nil
  then show ?case using traceInv_refl by auto
next
  case (Cons b bs)
  define a where "a = (antigravityRequest E ai u b,
                  request E (length (attempts st)) (antigravityRequest E ai u b))"
  from attemptBodies_unfold[OF Cons.prems] obtain st1 where
    alt: "attemptBodies E ai u bs st1 = (res, st')
          \<or> (st' = st1 \<and> (res \<noteq> None \<longrightarrow> hadSuccess st1))"
    and step: "attempts st1 = attempts st @ [a]"
      "hadSuccess st1 = (hadSuccess st \<or> returned2xx (snd a))"
      "priorityStatus st1 = orElse (priorityStatus st) (firstPriorityStatus E [snd a])"
      "lastStatus st1 = orElse (observedStatus E (snd a)) (lastStatus st)"
      "res = None \<longrightarrow> lastError st1 = recordedMessage E (snd a)"
    unfolding a_def by blast
  from alt obtain new where "traceInv E st1 res st' new"
    using Cons.IH traceInv_stop by blast
  then have "traceInv E st res st' (a # new)"
    using step by (rule traceInv_step)
  then show ?case by blast
qed

lemma tryUrls_trace:
  "tryUrls E ai us bodies st = (res, st') \<Longrightarrow> \<exists>new. traceInv E st res st' new"
proof (induction us arbitrary: st)
  case Nil
  then show ?case using traceInv_refl by auto
next
  case (Cons u us)
  obtain r1 st1 where b: "attemptBodies E ai u bodies st = (r1, st1)"
    by (cases "attemptBodies E ai u bodies st")
  then obtain new1 where t1: "traceInv E st r1 st1 new1"
    using attemptBodies_trace by blast
  show ?case
  proof (cases r1)
    case None
    with Cons.prems b have "tryUrls E ai us bodies st1 = (res, st')" by simp
    then obtain new2 where "traceInv E st1 res st' new2" using Cons.IH by blast
    with t1 None show ?thesis using traceInv_trans by blast
  next
    case (Some g)
    with Cons.prems b have "res = r1" "st' = st1" by auto
    with t1 show ?thesis by blast
  qed
qed

text \<open>
  From the initial variables, the final ones are functions of the attempts made.
\<close>

lemma antigravityAttempts_trace:
  assumes "antigravityAttempts E ai file = (res, st)"
  shows "hadSuccess st = list_ex returned2xx (map snd (attempts st))"
    and "priorityStatus st = firstPriorityStatus E (map snd (attempts st))"
    and "lastStatus st = lastSeenStatus E (map snd (attempts st))"
    and "res = None \<Longrightarrow> lastError st = lastRecordedMessage E (map snd (attempts st))"
    and "res \<noteq> None \<Longrightarrow> hadSuccess st"
proof -
  from assms obtain new where "traceInv E initialAttemptState res st new"
    unfolding antigravityAttempts_def using tryUrls_trace by blast
  then have t: "attempts st = new"
    "hadSuccess st = list_ex returned2xx (map snd new)"
    "priorityStatus st = firstPriorityStatus E (map snd new)"
    "lastStatus st = lastSeenStatus E (map snd new)"
    "res = None \<longrightarrow> lastError st = lastRecordedMessage E (map snd new)"
    "res \<noteq> None \<longrightarrow> hadSuccess st"
    by (auto simp: traceInv_def initialAttemptState_def)
  show "hadSuccess st = list_ex returned2xx (map snd (attempts st))" using t by simp
  show "priorityStatus st = firstPriorityStatus E (map snd (attempts st))" using t by simp
  show "lastStatus st = lastSeenStatus E (map snd (attempts st))" using t by simp
  show "res = None \<Longrightarrow> lastError st = lastRecordedMessage E (map snd (attempts st))"
    using t by simp
  show "res \<noteq> None \<Longrightarrow> hadSuccess st" using t by simp
qed

lemma fetchAntigravityQuota_authorized:
  assumes "normalizeAuthIndexValue E (coalesce (dot file ''auth_index'') (dot file ''authIndex''))
             = Some ai" and "ai \<noteq> []"
    and "antigravityAttempts E ai file = (res, st)"
  shows "fetchAntigravityQuota E file =
           (case res of
              Some groups \<Rightarrow> Inr groups
            | None \<Rightarrow>
                if hadSuccess st then Inr []
                else Inl (StatusError
                            (if lastError st \<noteq> [] then lastError st
                             else i18n E ''common.unknown_error'')
                            (orElse (priorityStatus st) (lastStatus st))))"
  using assms by (simp add: fetchAntigravityQuota_def Let_def split: option.splits)

lemma firstPriorityStatus_first:
  assumes "observedStatus E out = Some s" and "s = 403 \<or> s = 404"
    and "\<forall>x\<in>set pre. observedStatus E x \<noteq> Some 403 \<and> observedStatus E x \<noteq> Some 404"
  shows "firstPriorityStatus E (pre @ out # post) = Some s"
  using assms by (induction pre) (auto split: option.splits)

lemma returnedNon2xx_status:
  "returnedNon2xx (Returned r) \<Longrightarrow> observedStatus E (Returned r) = Some (statusCode r)"
  by (auto simp: returnedNon2xx_def observedStatus_def)

lemma tryUrls_next_url:
  "attemptBodies E ai u bodies st0 = (None, st') \<Longrightarrow>
   tryUrls E ai (u # us) bodies st0 = tryUrls E ai us bodies st'"
  by simp

lemma attemptBodies_extends:
  "attemptBodies E ai u bs st = (res, st') \<Longrightarrow> \<exists>new. attempts st' = attempts st @ new"
  using attemptBodies_trace[of E ai u bs st res st'] by (auto simp: traceInv_def)

lemma attemptBodies_first_request:
  "\<exists>rest. attempts (snd (attemptBodies E ai u (b # bs) st)) =
      attempts st @
      (antigravityRequest E ai u b,
       request E (length (attempts st)) (antigravityRequest E ai u b)) # rest"
proof -
  obtain res st' where r: "attemptBodies E ai u (b # bs) st = (res, st')"
    by (cases "attemptBodies E ai u (b # bs) st")
  from attemptBodies_unfold[OF r] obtain st1 where
    alt: "attemptBodies E ai u bs st1 = (res, st') \<or> st' = st1"
    and a: "attempts st1 = attempts st @
      [(antigravityRequest E ai u b,
        request E (length (attempts st)) (antigravityRequest E ai u b))]"
    by blast
  from alt obtain new where "attempts st' = attempts st1 @ new"
    using attemptBodies_extends by blast
  with a r show ?thesis by simp
qed

lemma attemptBodies_400:
  assumes "request E (length (attempts st)) (antigravityRequest E ai u b) = Returned r"
    and "statusCode r = 400"
  shows "attemptBodies E ai u (b # bs) st =
           (if isAntigravityUnknownFieldError (getApiCallErrorMessage E r) \<and> bs \<noteq> []
            then attemptBodies E ai u bs
                   (st\<lparr>attempts := attempts st @ [(antigravityRequest E ai u b, Returned r)],
                       lastError := getApiCallErrorMessage E r, lastStatus := Some 400\<rparr>)
            else (None,
                   st\<lparr>attempts := attempts st @ [(antigravityRequest E ai u b, Returned r)],
                      lastError := getApiCallErrorMessage E r, lastStatus := Some 400\<rparr>))"
  using assms by (simp add: Let_def)

lemma attemptBodies_2xx_hadSuccess:
  assumes "request E (length (attempts st)) (antigravityRequest E ai u b) = Returned r"
    and "200 \<le> statusCode r" and "statusCode r < 300"
  shows "hadSuccess (snd (attemptBodies E ai u (b # bs) st))"
proof -
  obtain res st' where r: "attemptBodies E ai u (b # bs) st = (res, st')"
    by (cases "attemptBodies E ai u (b # bs) st")
  then obtain new where t: "traceInv E st res st' new" using attemptBodies_trace by blast
  from attemptBodies_first_request[of E ai u b bs st] r assms(1) t
  have "new \<noteq> []" "snd (hd new) = Returned r"
    by (auto simp: traceInv_def)
  then have "list_ex returned2xx (map snd new)"
    using assms(2,3) by (cases new) (auto simp: returned2xx_def)
  with t r show ?thesis by (simp add: traceInv_def)
qed

text \<open>Evaluating the sample environment.\<close>

lemmas sample_simps =
  sampleEnv_def sampleFile_def respond_def respondJson_def scripted_def sampleErrorMessage_def
  antigravityAttempts_def antigravityRequest_def requestBodies_def
  resolveAntigravityProjectId_def resolveProjectIdTry_def initialAttemptState_def Let_def coalesce_def optDot_def
  isAntigravityUnknownFieldError_def toLowerCase_def lowerChar_def
  returned2xx_def observedStatus_def recordedMessage_def

subsection \<open>Antigravity: the status of the final error\<close>

text \<open>
  C2, as the code has it. When every attempt returned a non-2xx status, the error
  thrown at the end carries the status of the first attempt whose status was 403 or
  404: it is 403 when no attempt before the first 403 returned 404, whatever other
  codes were observed and in whatever order; it is 404 when a 404 came first.
\<close>

theorem antigravity_first_priority_status:
  assumes auth: "normalizeAuthIndexValue E
             (coalesce (dot file ''auth_index'') (dot file ''authIndex'')) = Some ai" "ai \<noteq> []"
    and run: "antigravityAttempts E ai file = (res, st)"
    and non2xx: "\<forall>a\<in>set (attempts st). returnedNon2xx (snd a)"
    and split: "attempts st = pre @ (rq, Returned r) # post"
    and prio: "statusCode r = 403 \<or> statusCode r = 404"
    and first: "\<forall>a\<in>set pre. \<forall>r'. snd a = Returned r' \<longrightarrow>
                  statusCode r' \<noteq> 403 \<and> statusCode r' \<noteq> 404"
  shows "\<exists>m. fetchAntigravityQuota E file = Inl (StatusError m (Some (statusCode r)))"
proof -
  note t = antigravityAttempts_trace[OF run]
  have no2xx: "\<not> list_ex returned2xx (map snd (attempts st))"
    using non2xx
    by (auto simp: list_ex_iff returned2xx_def returnedNon2xx_def split: outcome.splits)
  then have "\<not> hadSuccess st" using t(1) by simp
  then have none: "res = None" using t(5) by blast
  have r: "returnedNon2xx (Returned r)" using non2xx split by auto
  have pre: "\<forall>x\<in>set (map snd pre).
               observedStatus E x \<noteq> Some 403 \<and> observedStatus E x \<noteq> Some 404"
  proof
    fix x assume "x \<in> set (map snd pre)"
    then obtain a where a: "a \<in> set pre" "x = snd a" by auto
    then have "returnedNon2xx x" using non2xx split by auto
    then obtain r' where r': "x = Returned r'"
      by (cases x) (auto simp: returnedNon2xx_def)
    with \<open>returnedNon2xx x\<close> have "observedStatus E x = Some (statusCode r')"
      using returnedNon2xx_status by blast
    moreover have "statusCode r' \<noteq> 403 \<and> statusCode r' \<noteq> 404"
      using first a r' by auto
    ultimately show "observedStatus E x \<noteq> Some 403 \<and> observedStatus E x \<noteq> Some 404"
      by simp
  qed
  have "firstPriorityStatus E (map snd (attempts st)) = Some (statusCode r)"
    using firstPriorityStatus_first[OF returnedNon2xx_status[OF r] prio pre] split by simp
  then have "priorityStatus st = Some (statusCode r)" using t(2) by simp
  then show ?thesis
    using fetchAntigravityQuota_authorized[OF auth run] none \<open>\<not> hadSuccess st\<close> by simp
qed

theorem antigravity_first_priority_status_witness:
  "map snd (attempts (snd (antigravityAttempts (sampleEnv statuses500_403_404) ''7'' sampleFile)))
     = [respond 500 ''server error'', respond 403 ''forbidden'', respond 404 ''not found'']
   \<and> (\<exists>m. fetchAntigravityQuota (sampleEnv statuses500_403_404) sampleFile
           = Inl (StatusError m (Some 403)))"
proof -
  let ?E = "sampleEnv statuses500_403_404"
  let ?u1 = "''https://one.example/models''"
  let ?u2 = "''https://two.example/models''"
  let ?u3 = "''https://three.example/models''"
  let ?b = "''{projectId:bamboo-precept-lgxtn}''"
  let ?r = "\<lparr>statusCode = 403, body = JUndefined, bodyText = JStr ''forbidden''\<rparr>"
  obtain res st where run: "antigravityAttempts ?E ''7'' sampleFile = (res, st)"
    by (cases "antigravityAttempts ?E ''7'' sampleFile")
  have tr: "attempts st =
      [(antigravityRequest ?E ''7'' ?u1 ?b, respond 500 ''server error'')]
      @ (antigravityRequest ?E ''7'' ?u2 ?b, Returned ?r)
      # [(antigravityRequest ?E ''7'' ?u3 ?b, respond 404 ''not found'')]"
    using run
    by (auto simp: sample_simps statuses500_403_404_def DEFAULT_ANTIGRAVITY_PROJECT_ID_def)
  have auth: "normalizeAuthIndexValue ?E
      (coalesce (dot sampleFile ''auth_index'') (dot sampleFile ''authIndex'')) = Some ''7''"
    by (simp add: sample_simps)
  have non2xx: "\<forall>a\<in>set (attempts st). returnedNon2xx (snd a)"
    unfolding tr by (simp add: respond_def returnedNon2xx_def)
  have first: "\<forall>a\<in>set [(antigravityRequest ?E ''7'' ?u1 ?b, respond 500 ''server error'')].
                 \<forall>r'. snd a = Returned r' \<longrightarrow> statusCode r' \<noteq> 403 \<and> statusCode r' \<noteq> 404"
    by (auto simp: respond_def)
  from antigravity_first_priority_status[OF auth _ run non2xx tr _ first]
  have "\<exists>m. fetchAntigravityQuota ?E sampleFile = Inl (StatusError m (Some 403))"
    by simp
  moreover have "map snd (attempts st) =
      [respond 500 ''server error'', respond 403 ''forbidden'', respond 404 ''not found'']"
    unfolding tr by (simp add: respond_def)
  ultimately show ?thesis using run by simp
qed

text \<open>
  C2 as stated fails: the three URLs answer 404, 403 and 500, every attempt returns a
  non-2xx status and one of them is 403, and the error carries 404, the priority status
  seen first.
\<close>

theorem antigravity_status_403_counterexample:
  "map snd (attempts (snd (antigravityAttempts (sampleEnv statuses404_403_500) ''7'' sampleFile)))
     = [respond 404 ''not found'', respond 403 ''forbidden'', respond 500 ''server error'']
   \<and> fetchAntigravityQuota (sampleEnv statuses404_403_500) sampleFile
     = Inl (StatusError ''server error'' (Some 404))"
  by (simp add: fetchAntigravityQuota_def sample_simps statuses404_403_500_def)

subsection \<open>Antigravity: the result of a run without groups\<close>

text \<open>
  C5. When the attempt loop ends without a non-empty group list, the adapter returns
  the empty group list if and only if at least one attempt returned a 2xx status.
  Otherwise it throws the status error made of the last recorded error message (the
  unknown-error text when no message or an empty one was recorded) and of the priority
  status, the first 403 or 404 seen, when there is one, else of the last status seen.
\<close>

theorem antigravity_no_groups_result:
  assumes "normalizeAuthIndexValue E (coalesce (dot file ''auth_index'') (dot file ''authIndex''))
             = Some ai" and "ai \<noteq> []"
    and "antigravityAttempts E ai file = (None, st)"
  shows "fetchAntigravityQuota E file =
           (if list_ex returned2xx (map snd (attempts st)) then Inr []
            else Inl (StatusError
                        (if lastRecordedMessage E (map snd (attempts st)) \<noteq> []
                         then lastRecordedMessage E (map snd (attempts st))
                         else i18n E ''common.unknown_error'')
                        (orElse (firstPriorityStatus E (map snd (attempts st)))
                           (lastSeenStatus E (map snd (attempts st))))))"
proof -
  note t = antigravityAttempts_trace[OF assms(3)]
  have "fetchAntigravityQuota E file =
          (if hadSuccess st then Inr []
           else Inl (StatusError
                       (if lastError st \<noteq> [] then lastError st
                        else i18n E ''common.unknown_error'')
                       (orElse (priorityStatus st) (lastStatus st))))"
    using fetchAntigravityQuota_authorized[OF assms] by simp
  then show ?thesis
    using t(1) t(2) t(3) t(4) by simp
qed

theorem antigravity_no_groups_result_witness:
  "map snd (attempts (snd (antigravityAttempts (sampleEnv failingTransport) ''7'' sampleFile)))
     = [respond 500 ''boom'', Thrown (JsError ''timeout'' (JObj [(''status'', JNum 404)])),
        respond 503 ''unavailable'', respond 400 ''bad request'']
   \<and> fetchAntigravityQuota (sampleEnv failingTransport) sampleFile
     = Inl (StatusError ''bad request'' (Some 404))
   \<and> map snd (attempts (snd (antigravityAttempts (sampleEnv emptyModelsTransport) ''7'' sampleFile)))
     = [respondJson 200 (JObj [(''models'', JArr [])]),
        respond 500 ''first'', respond 500 ''second'', respond 500 ''third'']
   \<and> fetchAntigravityQuota (sampleEnv emptyModelsTransport) sampleFile = Inr []"
proof -
  let ?F = "sampleEnv failingTransport"
  let ?G = "sampleEnv emptyModelsTransport"
  have authF: "normalizeAuthIndexValue ?F
      (coalesce (dot sampleFile ''auth_index'') (dot sampleFile ''authIndex'')) = Some ''7''"
    by (simp add: sample_simps)
  have authG: "normalizeAuthIndexValue ?G
      (coalesce (dot sampleFile ''auth_index'') (dot sampleFile ''authIndex'')) = Some ''7''"
    by (simp add: sample_simps)
  have trF: "map snd (attempts (snd (antigravityAttempts ?F ''7'' sampleFile))) =
      [respond 500 ''boom'', Thrown (JsError ''timeout'' (JObj [(''status'', JNum 404)])),
       respond 503 ''unavailable'', respond 400 ''bad request'']"
    by (simp add: sample_simps failingTransport_def)
  have runF: "antigravityAttempts ?F ''7'' sampleFile =
      (None, snd (antigravityAttempts ?F ''7'' sampleFile))"
    by (simp add: sample_simps failingTransport_def)
  have trG: "map snd (attempts (snd (antigravityAttempts ?G ''7'' sampleFile))) =
      [respondJson 200 (JObj [(''models'', JArr [])]),
       respond 500 ''first'', respond 500 ''second'', respond 500 ''third'']"
    by (simp add: sample_simps emptyModelsTransport_def)
  have runG: "antigravityAttempts ?G ''7'' sampleFile =
      (None, snd (antigravityAttempts ?G ''7'' sampleFile))"
    by (simp add: sample_simps emptyModelsTransport_def)
  have F: "fetchAntigravityQuota ?F sampleFile = Inl (StatusError ''bad request'' (Some 404))"
    using antigravity_no_groups_result[OF authF _ runF]
    unfolding trF by (simp add: sample_simps)
  have G: "fetchAntigravityQuota ?G sampleFile = Inr []"
    using antigravity_no_groups_result[OF authG _ runG]
    unfolding trG by (simp add: sample_simps)
  show ?thesis using trF trG F G by simp
qed

subsection \<open>Antigravity: the unknown-field retry\<close>

text \<open>
  C4. An attempt at a URL returns status 400. When its error message has both phrases
  (case-insensitively) and a body variant remains for this URL, the loop goes on with
  the remaining bodies, and its next request is the next body against the same URL.
  When the message has both phrases and no body variant remains, or when the message
  lacks a phrase, the loop over this URL ends here, with no further request to it; and
  when the loop over a URL has ended without groups, the adapter goes on with the next
  URLs.
\<close>

theorem antigravity_unknown_field_retry:
  assumes resp: "request E (length (attempts st)) (antigravityRequest E ai u b) = Returned r"
    and code: "statusCode r = 400"
  defines "st1 \<equiv> st\<lparr>attempts := attempts st @ [(antigravityRequest E ai u b, Returned r)],
                     lastError := getApiCallErrorMessage E r, lastStatus := Some 400\<rparr>"
  shows "(isAntigravityUnknownFieldError (getApiCallErrorMessage E r) \<and> bs = b' # bs' \<longrightarrow>
            attemptBodies E ai u (b # bs) st = attemptBodies E ai u bs st1 \<and>
            (\<exists>rest. attempts (snd (attemptBodies E ai u (b # bs) st)) =
               attempts st @
               [(antigravityRequest E ai u b, Returned r),
                (antigravityRequest E ai u b',
                 request E (Suc (length (attempts st))) (antigravityRequest E ai u b'))] @ rest))
       \<and> (isAntigravityUnknownFieldError (getApiCallErrorMessage E r) \<and> bs = [] \<longrightarrow>
            attemptBodies E ai u (b # bs) st = (None, st1))
       \<and> (\<not> isAntigravityUnknownFieldError (getApiCallErrorMessage E r) \<longrightarrow>
            attemptBodies E ai u (b # bs) st = (None, st1))
       \<and> (attemptBodies E ai u bodies st0 = (None, st1) \<longrightarrow>
            tryUrls E ai (u # us) bodies st0 = tryUrls E ai us bodies st1)"
proof -
  note eq = attemptBodies_400[OF resp code, of bs, folded st1_def]
  have A: "attemptBodies E ai u (b # bs) st = attemptBodies E ai u bs st1"
    if "isAntigravityUnknownFieldError (getApiCallErrorMessage E r)" "bs = b' # bs'"
    using eq that by simp
  have A2: "\<exists>rest. attempts (snd (attemptBodies E ai u (b # bs) st)) =
               attempts st @
               [(antigravityRequest E ai u b, Returned r),
                (antigravityRequest E ai u b',
                 request E (Suc (length (attempts st))) (antigravityRequest E ai u b'))] @ rest"
    if u: "isAntigravityUnknownFieldError (getApiCallErrorMessage E r)" "bs = b' # bs'"
  proof -
    have "length (attempts st1) = Suc (length (attempts st))"
      by (simp add: st1_def)
    moreover have "attempts st1 = attempts st @ [(antigravityRequest E ai u b, Returned r)]"
      by (simp add: st1_def)
    ultimately show ?thesis
      using attemptBodies_first_request[of E ai u b' bs' st1] A[OF u] u(2) by auto
  qed
  have B: "attemptBodies E ai u (b # bs) st = (None, st1)"
    if "bs = [] \<or> \<not> isAntigravityUnknownFieldError (getApiCallErrorMessage E r)"
    using eq that by auto
  have D: "tryUrls E ai (u # us) bodies st0 = tryUrls E ai us bodies st1"
    if "attemptBodies E ai u bodies st0 = (None, st1)"
    using that by (rule tryUrls_next_url)
  show ?thesis using A A2 B D by blast
qed

theorem antigravity_unknown_field_retry_witness:
  "isAntigravityUnknownFieldError unknownFieldMessage
   \<and> \<not> isAntigravityUnknownFieldError ''bad request''
   \<and> map (\<lambda>a. (url (fst a), data (fst a), snd a))
         (attempts (snd (antigravityAttempts (sampleEnv unknownFieldTransport) ''7'' sampleFile)))
     = [(''https://one.example/models'', Some ''{projectId:bamboo-precept-lgxtn}'',
           respond 400 unknownFieldMessage),
        (''https://one.example/models'', Some ''{project:bamboo-precept-lgxtn}'',
           respond 400 unknownFieldMessage),
        (''https://two.example/models'', Some ''{projectId:bamboo-precept-lgxtn}'',
           respond 400 ''bad request''),
        (''https://three.example/models'', Some ''{projectId:bamboo-precept-lgxtn}'',
           respond 500 ''server error'')]"
proof -
  let ?E = "sampleEnv unknownFieldTransport"
  let ?u1 = "''https://one.example/models''"
  let ?u2 = "''https://two.example/models''"
  let ?u3 = "''https://three.example/models''"
  let ?b1 = "''{projectId:bamboo-precept-lgxtn}''"
  let ?b2 = "''{project:bamboo-precept-lgxtn}''"
  let ?ru = "\<lparr>statusCode = 400, body = JUndefined, bodyText = JStr unknownFieldMessage\<rparr>"
  let ?rb = "\<lparr>statusCode = 400, body = JUndefined, bodyText = JStr ''bad request''\<rparr>"
  let ?st0 = "initialAttemptState"
  let ?st1 = "?st0\<lparr>attempts := attempts ?st0 @ [(antigravityRequest ?E ''7'' ?u1 ?b1, Returned ?ru)],
                    lastError := getApiCallErrorMessage ?E ?ru, lastStatus := Some 400\<rparr>"
  let ?st2 = "?st1\<lparr>attempts := attempts ?st1 @ [(antigravityRequest ?E ''7'' ?u1 ?b2, Returned ?ru)],
                    lastError := getApiCallErrorMessage ?E ?ru, lastStatus := Some 400\<rparr>"
  let ?st3 = "?st2\<lparr>attempts := attempts ?st2 @ [(antigravityRequest ?E ''7'' ?u2 ?b1, Returned ?rb)],
                    lastError := getApiCallErrorMessage ?E ?rb, lastStatus := Some 400\<rparr>"
  have yes: "isAntigravityUnknownFieldError unknownFieldMessage"
    by (simp add: unknownFieldMessage_def isAntigravityUnknownFieldError_def toLowerCase_def
        lowerChar_def)
  have no: "\<not> isAntigravityUnknownFieldError ''bad request''"
    by (simp add: isAntigravityUnknownFieldError_def toLowerCase_def lowerChar_def)
  have msg: "getApiCallErrorMessage ?E ?ru = unknownFieldMessage"
    "getApiCallErrorMessage ?E ?rb = ''bad request''"
    by (simp_all add: sampleEnv_def sampleErrorMessage_def)
  have bodies: "requestBodies ?E (resolveAntigravityProjectId ?E sampleFile) = [?b1, ?b2]"
    by (simp add: sample_simps DEFAULT_ANTIGRAVITY_PROJECT_ID_def)
  have urls: "ANTIGRAVITY_QUOTA_URLS ?E = [?u1, ?u2, ?u3]"
    by (simp add: sampleEnv_def)
  have h1: "request ?E (length (attempts ?st0)) (antigravityRequest ?E ''7'' ?u1 ?b1) = Returned ?ru"
    by (simp add: sample_simps unknownFieldTransport_def)
  have h2: "request ?E (length (attempts ?st1)) (antigravityRequest ?E ''7'' ?u1 ?b2) = Returned ?ru"
    by (simp add: sample_simps unknownFieldTransport_def)
  have h3: "request ?E (length (attempts ?st2)) (antigravityRequest ?E ''7'' ?u2 ?b1) = Returned ?rb"
    by (simp add: sample_simps unknownFieldTransport_def)
  have s1: "attemptBodies ?E ''7'' ?u1 [?b1, ?b2] ?st0 = attemptBodies ?E ''7'' ?u1 [?b2] ?st1"
    using antigravity_unknown_field_retry[OF h1, of "[?b2]" ?b2 "[]"] yes msg by simp
  have s2: "attemptBodies ?E ''7'' ?u1 [?b2] ?st1 = (None, ?st2)"
    using antigravity_unknown_field_retry[OF h2, of "[]"] yes msg by simp
  have s3: "tryUrls ?E ''7'' (?u1 # [?u2, ?u3]) [?b1, ?b2] ?st0
              = tryUrls ?E ''7'' [?u2, ?u3] [?b1, ?b2] ?st2"
    using antigravity_unknown_field_retry[OF h2, of _ _ _ "[?b1, ?b2]" ?st0 "[?u2, ?u3]"] s1 s2
    by simp
  have s4: "attemptBodies ?E ''7'' ?u2 [?b1, ?b2] ?st2 = (None, ?st3)"
    using antigravity_unknown_field_retry[OF h3, of "[?b2]"] no msg by simp
  have s5: "tryUrls ?E ''7'' (?u2 # [?u3]) [?b1, ?b2] ?st2 = tryUrls ?E ''7'' [?u3] [?b1, ?b2] ?st3"
    using antigravity_unknown_field_retry[OF h3, of _ _ _ "[?b1, ?b2]" ?st2 "[?u3]"] s4
    by simp
  have "antigravityAttempts ?E ''7'' sampleFile = tryUrls ?E ''7'' [?u3] [?b1, ?b2] ?st3"
    unfolding antigravityAttempts_def bodies urls using s3 s5 by simp
  then show ?thesis
    using yes no
    by (simp add: sample_simps unknownFieldTransport_def)
qed

subsection \<open>Antigravity: a 2xx answer without a model map\<close>

text \<open>
  C8. An attempt returns a 2xx status. Then \<open>hadSuccess\<close> is set when the loop over
  this URL is left. When the \<open>models\<close> field of the parsed payload is absent, is not
  an object, or is an array (the empty array too), the attempt records the
  empty-models message and the loop goes on with the next body; when no body is left
  the loop over this URL ends without groups and without an error, and the adapter
  goes on with the next URLs.
\<close>

theorem antigravity_2xx_without_models:
  assumes resp: "request E (length (attempts st)) (antigravityRequest E ai u b) = Returned r"
    and ok: "200 \<le> statusCode r" "statusCode r < 300"
  defines "models \<equiv>
             optDot (parseAntigravityPayload E (coalesce (body r) (bodyText r))) ''models''"
    and "st1 \<equiv> st\<lparr>attempts := attempts st @ [(antigravityRequest E ai u b, Returned r)],
                    hadSuccess := True,
                    lastError := i18n E ''antigravity_quota.empty_models''\<rparr>"
  shows "hadSuccess (snd (attemptBodies E ai u (b # bs) st))
       \<and> (\<not> isPlainObject models \<longrightarrow>
            attemptBodies E ai u (b # bs) st = attemptBodies E ai u bs st1)
       \<and> (\<not> isPlainObject models \<and> bs = [] \<longrightarrow>
            attemptBodies E ai u (b # bs) st = (None, st1))
       \<and> (attemptBodies E ai u bodies st0 = (None, st1) \<longrightarrow>
            tryUrls E ai (u # us) bodies st0 = tryUrls E ai us bodies st1)"
proof -
  have cond: "\<not> truthy models \<or> \<not> typeofObject models \<or> isArray models"
    if "\<not> isPlainObject models"
    using that by (cases models) (auto simp: isPlainObject_def)
  have A: "attemptBodies E ai u (b # bs) st = attemptBodies E ai u bs st1"
    if "\<not> isPlainObject models"
    using resp ok cond[OF that]
    by (auto simp: Let_def models_def st1_def)
  then have B: "attemptBodies E ai u (b # bs) st = (None, st1)"
    if "\<not> isPlainObject models" "bs = []"
    using that by simp
  have D: "tryUrls E ai (u # us) bodies st0 = tryUrls E ai us bodies st1"
    if "attemptBodies E ai u bodies st0 = (None, st1)"
    using that by (rule tryUrls_next_url)
  show ?thesis
    using attemptBodies_2xx_hadSuccess[OF resp ok] A B D by blast
qed

theorem antigravity_2xx_without_models_witness:
  "\<not> isPlainObject (JArr [])
   \<and> hadSuccess (snd (antigravityAttempts (sampleEnv emptyModelsTransport) ''7'' sampleFile))
   \<and> map (\<lambda>a. (url (fst a), data (fst a)))
         (attempts (snd (antigravityAttempts (sampleEnv emptyModelsTransport) ''7'' sampleFile)))
     = [(''https://one.example/models'', Some ''{projectId:bamboo-precept-lgxtn}''),
        (''https://one.example/models'', Some ''{project:bamboo-precept-lgxtn}''),
        (''https://two.example/models'', Some ''{projectId:bamboo-precept-lgxtn}''),
        (''https://three.example/models'', Some ''{projectId:bamboo-precept-lgxtn}'')]
   \<and> fetchAntigravityQuota (sampleEnv emptyModelsTransport) sampleFile = Inr []"
proof -
  let ?E = "sampleEnv emptyModelsTransport"
  let ?u1 = "''https://one.example/models''"
  let ?u2 = "''https://two.example/models''"
  let ?u3 = "''https://three.example/models''"
  let ?b1 = "''{projectId:bamboo-precept-lgxtn}''"
  let ?b2 = "''{project:bamboo-precept-lgxtn}''"
  let ?r = "\<lparr>statusCode = 200, body = JObj [(''models'', JArr [])], bodyText = JStr []\<rparr>"
  let ?st0 = "initialAttemptState"
  let ?st1 = "?st0\<lparr>attempts := attempts ?st0 @ [(antigravityRequest ?E ''7'' ?u1 ?b1, Returned ?r)],
                    hadSuccess := True,
                    lastError := i18n ?E ''antigravity_quota.empty_models''\<rparr>"
  have arr: "\<not> isPlainObject (JArr [])"
    by (simp add: isPlainObject_def)
  have models: "optDot (parseAntigravityPayload ?E (coalesce (body ?r) (bodyText ?r))) ''models''
                  = JArr []"
    by (simp add: sample_simps)
  have bodies: "requestBodies ?E (resolveAntigravityProjectId ?E sampleFile) = [?b1, ?b2]"
    by (simp add: sample_simps DEFAULT_ANTIGRAVITY_PROJECT_ID_def)
  have urls: "ANTIGRAVITY_QUOTA_URLS ?E = [?u1, ?u2, ?u3]"
    by (simp add: sampleEnv_def)
  have h: "request ?E (length (attempts ?st0)) (antigravityRequest ?E ''7'' ?u1 ?b1) = Returned ?r"
    by (simp add: sample_simps emptyModelsTransport_def)
  note w = antigravity_2xx_without_models[OF h, of "[?b2]", unfolded models]
  have s1: "attemptBodies ?E ''7'' ?u1 [?b1, ?b2] ?st0 = attemptBodies ?E ''7'' ?u1 [?b2] ?st1"
    using w arr by simp
  have "antigravityAttempts ?E ''7'' sampleFile
          = (case attemptBodies ?E ''7'' ?u1 [?b2] ?st1 of
               (Some groups, st') \<Rightarrow> (Some groups, st')
             | (None, st') \<Rightarrow> tryUrls ?E ''7'' [?u2, ?u3] [?b1, ?b2] st')"
    unfolding antigravityAttempts_def bodies urls using s1 by simp
  then show ?thesis
    using arr
    by (simp add: fetchAntigravityQuota_def sample_simps emptyModelsTransport_def)
qed

subsection \<open>The quota store: setters\<close>

text \<open>
  C10. Each provider-specific setter replaces the map of its own provider by what the
  updater gives for it, and leaves the maps of the four other providers as they were.
\<close>

theorem quota_setters_frame:
  "antigravityQuota (setAntigravityQuota ua s) = resolveUpdater ua (antigravityQuota s)
   \<and> codexQuota (setAntigravityQuota ua s) = codexQuota s
   \<and> geminiCliQuota (setAntigravityQuota ua s) = geminiCliQuota s
   \<and> kiroQuota (setAntigravityQuota ua s) = kiroQuota s
   \<and> githubCopilotQuota (setAntigravityQuota ua s) = githubCopilotQuota s
   \<and> codexQuota (setCodexQuota uc s) = resolveUpdater uc (codexQuota s)
   \<and> antigravityQuota (setCodexQuota uc s) = antigravityQuota s
   \<and> geminiCliQuota (setCodexQuota uc s) = geminiCliQuota s
   \<and> kiroQuota (setCodexQuota uc s) = kiroQuota s
   \<and> githubCopilotQuota (setCodexQuota uc s) = githubCopilotQuota s
   \<and> geminiCliQuota (setGeminiCliQuota ug s) = resolveUpdater ug (geminiCliQuota s)
   \<and> antigravityQuota (setGeminiCliQuota ug s) = antigravityQuota s
   \<and> codexQuota (setGeminiCliQuota ug s) = codexQuota s
   \<and> kiroQuota (setGeminiCliQuota ug s) = kiroQuota s
   \<and> githubCopilotQuota (setGeminiCliQuota ug s) = githubCopilotQuota s
   \<and> kiroQuota (setKiroQuota uk s) = resolveUpdater uk (kiroQuota s)
   \<and> antigravityQuota (setKiroQuota uk s) = antigravityQuota s
   \<and> codexQuota (setKiroQuota uk s) = codexQuota s
   \<and> geminiCliQuota (setKiroQuota uk s) = geminiCliQuota s
   \<and> githubCopilotQuota (setKiroQuota uk s) = githubCopilotQuota s
   \<and> githubCopilotQuota (setGithubCopilotQuota uh s) = resolveUpdater uh (githubCopilotQuota s)
   \<and> antigravityQuota (setGithubCopilotQuota uh s) = antigravityQuota s
   \<and> codexQuota (setGithubCopilotQuota uh s) = codexQuota s
   \<and> geminiCliQuota (setGithubCopilotQuota uh s) = geminiCliQuota s
   \<and> kiroQuota (setGithubCopilotQuota uh s) = kiroQuota s"
  by (simp add: setAntigravityQuota_def setCodexQuota_def setGeminiCliQuota_def
      setKiroQuota_def setGithubCopilotQuota_def)

subsection \<open>Gemini CLI: the remaining fraction of a bucket\<close>

text \<open>
  C7. A raw bucket with a model identifier is parsed to a bucket. A direct remaining
  fraction, when there is one, is its remaining fraction. Without one, the remaining
  fraction is 0 when a remaining amount is present and at most 0; null when the amount
  is present and positive; 0 when no amount is present and a reset time is; null when
  amount and reset time are absent too.
\<close>

theorem gemini_remaining_fraction:
  assumes "normalizeStringValue E (coalesce (dot bucket ''modelId'') (dot bucket ''model_id''))
             = Some mid" and "mid \<noteq> []"
  defines "fraction \<equiv> normalizeQuotaFraction E
             (coalesce (dot bucket ''remainingFraction'') (dot bucket ''remaining_fraction''))"
    and "amount \<equiv> normalizeNumberValue E
             (coalesce (dot bucket ''remainingAmount'') (dot bucket ''remaining_amount''))"
    and "reset \<equiv> normalizeStringValue E
             (coalesce (dot bucket ''resetTime'') (dot bucket ''reset_time''))"
  shows "\<exists>p. parseBucket E bucket = Some p \<and> modelId p = mid
           \<and> (\<forall>f. fraction = Some f \<longrightarrow> remainingFraction p = Some f)
           \<and> (\<forall>a. fraction = None \<and> amount = Some a \<and> a \<le> 0 \<longrightarrow>
                  remainingFraction p = Some 0)
           \<and> (\<forall>a. fraction = None \<and> amount = Some a \<and> 0 < a \<longrightarrow>
                  remainingFraction p = None)
           \<and> (fraction = None \<and> amount = None \<and> truthyStr reset \<longrightarrow>
                  remainingFraction p = Some 0)
           \<and> (fraction = None \<and> amount = None \<and> \<not> truthyStr reset \<longrightarrow>
                  remainingFraction p = None)"
  using assms(1,2) unfolding fraction_def amount_def reset_def
  by (auto simp: parseBucket_def Let_def)

theorem gemini_remaining_fraction_witness:
  "map (map_option remainingFraction \<circ> parseBucket (sampleEnv (scripted [])))
     [JObj [(''modelId'', JStr ''gemini-pro''), (''remainingAmount'', JNum 0)],
      JObj [(''modelId'', JStr ''gemini-pro''), (''remainingAmount'', JNum 12)],
      JObj [(''modelId'', JStr ''gemini-pro''), (''resetTime'', JStr ''2025-01-01T00:00:00Z'')],
      JObj [(''modelId'', JStr ''gemini-pro'')],
      JObj [(''modelId'', JStr ''gemini-pro''), (''remainingFraction'', JNum 0.4),
            (''remainingAmount'', JNum 0)]]
   = [Some (Some 0), Some None, Some (Some 0), Some None, Some (Some 0.4)]"
proof -
  let ?E = "sampleEnv (scripted [])"
  let ?b1 = "JObj [(''modelId'', JStr ''gemini-pro''), (''remainingAmount'', JNum 0)]"
  let ?b2 = "JObj [(''modelId'', JStr ''gemini-pro''), (''remainingAmount'', JNum 12)]"
  let ?b3 = "JObj [(''modelId'', JStr ''gemini-pro''),
                   (''resetTime'', JStr ''2025-01-01T00:00:00Z'')]"
  let ?b4 = "JObj [(''modelId'', JStr ''gemini-pro'')]"
  let ?b5 = "JObj [(''modelId'', JStr ''gemini-pro''), (''remainingFraction'', JNum 0.4),
                   (''remainingAmount'', JNum 0)]"
  have m: "normalizeStringValue ?E (coalesce (dot b ''modelId'') (dot b ''model_id''))
             = Some ''gemini-pro''"
    if "b \<in> {?b1, ?b2, ?b3, ?b4, ?b5}" for b
    using that by (auto simp: sampleEnv_def coalesce_def)
  have ne: "''gemini-pro'' \<noteq> []" by simp
  have "map_option remainingFraction (parseBucket ?E ?b1) = Some (Some 0)"
    using gemini_remaining_fraction[OF m ne, of ?b1]
    by (auto simp: sampleEnv_def coalesce_def)
  moreover have "map_option remainingFraction (parseBucket ?E ?b2) = Some None"
    using gemini_remaining_fraction[OF m ne, of ?b2]
    by (auto simp: sampleEnv_def coalesce_def)
  moreover have "map_option remainingFraction (parseBucket ?E ?b3) = Some (Some 0)"
    using gemini_remaining_fraction[OF m ne, of ?b3]
    by (auto simp: sampleEnv_def coalesce_def)
  moreover have "map_option remainingFraction (parseBucket ?E ?b4) = Some None"
    using gemini_remaining_fraction[OF m ne, of ?b4]
    by (auto simp: sampleEnv_def coalesce_def)
  moreover have "map_option remainingFraction (parseBucket ?E ?b5) = Some (Some 0.4)"
    using gemini_remaining_fraction[OF m ne, of ?b5]
    by (auto simp: sampleEnv_def coalesce_def)
  ultimately show ?thesis by simp
qed

subsection \<open>Codex: the used percentage of a window\<close>

lemma addWindow_present:
  assumes "truthy window"
  shows "addWindow E ws wid key window limitReached allowed =
           ws @ [\<lparr>id' = wid, label = i18n E key, labelKey = key,
                   usedPercent =
                     orElse
                       (normalizeNumberValue E
                          (coalesce (dot window ''used_percent'') (dot window ''usedPercent'')))
                       (if (truthy limitReached \<or> isFalse allowed)
                           \<and> formatCodexResetLabel E window \<noteq> ''-''
                        then Some 100 else None),
                   resetLabel = formatCodexResetLabel E window\<rparr>]"
  using assms by (simp add: addWindow_def Let_def)

lemma addWindow_absent: "\<not> truthy window \<Longrightarrow> addWindow E ws wid key window lr al = ws"
  by (simp add: addWindow_def)



subsection \<open>Codex: the used percentage is clamped when rendered\<close>

lemma optDot_coalesce_undefined: "optDot (coalesce x JUndefined) k = optDot x k"
  by (cases x) (simp_all add: optDot_def coalesce_def)

lemma addWindow_builtFrom:
  assumes "list_all2 (builtFrom E) ws slots"
  shows "list_all2 (builtFrom E) (addWindow E ws wid key window lr al)
           (slots @ filter (\<lambda>s. truthy (snd s)) [(wid, window)])"
proof (cases "truthy window")
  case True
  have "builtFrom E
          \<lparr>id' = wid, label = i18n E key, labelKey = key,
            usedPercent =
              orElse
                (normalizeNumberValue E
                   (coalesce (dot window ''used_percent'') (dot window ''usedPercent'')))
                (if (truthy lr \<or> isFalse al) \<and> formatCodexResetLabel E window \<noteq> ''-''
                 then Some 100 else None),
            resetLabel = formatCodexResetLabel E window\<rparr>
          (wid, window)"
    by (cases "normalizeNumberValue E
          (coalesce (dot window ''used_percent'') (dot window ''usedPercent''))")
       (simp_all add: builtFrom_def usedPercentField_def)
  then show ?thesis
    using assms True unfolding addWindow_present[OF True]
    by (simp add: list_all2_appendI)
next
  case False
  then show ?thesis using assms by (simp add: addWindow_absent)
qed

lemma addWindow_thrice_builtFrom:
  "list_all2 (builtFrom E)
     (addWindow E (addWindow E (addWindow E [] a1 k1 w1 l1 b1) a2 k2 w2 l2 b2) a3 k3 w3 l3 b3)
     (filter (\<lambda>s. truthy (snd s)) [(a1, w1), (a2, w2), (a3, w3)])"
proof -
  have eq: "filter (\<lambda>s. truthy (snd s)) [(a1, w1), (a2, w2), (a3, w3)] =
              (([] @ filter (\<lambda>s. truthy (snd s)) [(a1, w1)])
                 @ filter (\<lambda>s. truthy (snd s)) [(a2, w2)])
                 @ filter (\<lambda>s. truthy (snd s)) [(a3, w3)]"
    by simp
  have nil: "list_all2 (builtFrom E) [] []" by simp
  show ?thesis
    unfolding eq
    by (rule addWindow_builtFrom[OF addWindow_builtFrom[OF addWindow_builtFrom[OF nil]]])
qed

lemma buildCodexQuotaWindows_builtFrom:
  "list_all2 (builtFrom E) (buildCodexQuotaWindows E payload) (presentCodexWindows payload)"
  unfolding buildCodexQuotaWindows_def presentCodexWindows_def codexUsageWindows_def Let_def
    optDot_coalesce_undefined
  by (rule addWindow_thrice_builtFrom)

lemma fetchCodexQuota_success:
  assumes "fetchCodexQuota E file = Inr d"
  shows "\<exists>ai acc r.
           request E 0
             \<lparr>authIndex = ai, httpMethod = ''GET'', url = CODEX_USAGE_URL E,
              header = AList.update ''Chatgpt-Account-Id'' acc (CODEX_REQUEST_HEADERS E),
              data = None\<rparr> = Returned r
           \<and> windows d =
               buildCodexQuotaWindows E
                 (parseCodexUsagePayload E (coalesce (body r) (bodyText r)))"
proof -
  let ?ai = "normalizeAuthIndexValue E (coalesce (dot file ''auth_index'') (dot file ''authIndex''))"
  let ?acc = "resolveCodexChatgptAccountId E file"
  from assms obtain ai where ai: "?ai = Some ai" "ai \<noteq> []"
    by (cases ?ai) (auto simp: fetchCodexQuota_def Let_def split: if_splits)
  from assms ai obtain acc where acc: "?acc = Some acc" "acc \<noteq> []"
    by (cases ?acc) (auto simp: fetchCodexQuota_def Let_def split: if_splits)
  let ?rq = "\<lparr>authIndex = ai, httpMethod = ''GET'', url = CODEX_USAGE_URL E,
              header = AList.update ''Chatgpt-Account-Id'' acc (CODEX_REQUEST_HEADERS E),
              data = None\<rparr>"
  from assms ai acc obtain r where
    "request E 0 ?rq = Returned r"
    "windows d =
       buildCodexQuotaWindows E (parseCodexUsagePayload E (coalesce (body r) (bodyText r)))"
    by (cases "request E 0 ?rq")
       (auto simp: fetchCodexQuota_def Let_def split: if_splits)
  then show ?thesis by blast
qed

lemma rowPercents_append: "rowPercents (xs @ ys) = rowPercents xs @ rowPercents ys"
  by (induction xs rule: rowPercents.induct) auto

lemma rowPercents_rows:
  "rowPercents (map (codexRow E) ws) =
     map (\<lambda>w. (id' w, remainingPercent (clampedUsed (usedPercent w)))) ws"
  by (induction ws) (auto simp: codexRow_def Let_def)

lemma remainingPercent_clampedUsed:
  "remainingPercent (clampedUsed used) =
     (case used of None \<Rightarrow> None | Some u \<Rightarrow> Some (100 - max 0 (min 100 u)))"
  by (cases used) (auto simp: remainingPercent_def clampedUsed_def)

lemma rowPercents_renderCodexItems:
  "rowPercents (renderCodexItems E quota) =
     (if normalizePlanType E (stringOrNull (planType quota)) = Some ''free'' then []
      else map (\<lambda>w. (id' w,
                      case usedPercent w of
                        None \<Rightarrow> None
                      | Some u \<Rightarrow> Some (100 - max 0 (min 100 u))))
             (windows quota))"
  by (auto simp: renderCodexItems_def Let_def rowPercents_append rowPercents_rows
      remainingPercent_clampedUsed split: option.splits)

text \<open>
  C3, as the code has it. In every successful fetch result the windows are built from
  the usage windows present in the parsed payload of the response, in their order, and
  the Success state holds them as they are. The used percentage of a window is the
  payload's own percentage of its usage window, whatever its size, when
  \<open>normalizeNumberValue\<close> gives one, and null or the synthesized 100 otherwise: it is
  not clamped. The clamp is in \<open>renderCodexItems\<close>: unless the plan is the free one,
  which shows no rows, the rows are those of the windows of the state, and the
  percentage a row gives to the progress bar is null when the used percentage is null
  and otherwise 100 minus the used percentage clamped to the interval from 0 to 100,
  hence in that interval.
\<close>

theorem codex_used_percent_clamped_when_rendered:
  assumes "fetchCodexQuota E file = Inr d"
  shows "\<exists>ai acc r.
           request E 0
             \<lparr>authIndex = ai, httpMethod = ''GET'', url = CODEX_USAGE_URL E,
              header = AList.update ''Chatgpt-Account-Id'' acc (CODEX_REQUEST_HEADERS E),
              data = None\<rparr> = Returned r
           \<and> windows (buildSuccessState d) = windows d
           \<and> list_all2 (builtFrom E) (windows d)
                (presentCodexWindows
                   (parseCodexUsagePayload E (coalesce (body r) (bodyText r))))
           \<and> rowPercents (renderCodexItems E (buildSuccessState d)) =
                (if normalizePlanType E (stringOrNull (planType d)) = Some ''free'' then []
                 else map (\<lambda>w. (id' w,
                                 case usedPercent w of
                                   None \<Rightarrow> None
                                 | Some u \<Rightarrow> Some (100 - max 0 (min 100 u))))
                        (windows d))
           \<and> (\<forall>row\<in>set (rowPercents (renderCodexItems E (buildSuccessState d))).
                 case snd row of None \<Rightarrow> True | Some c \<Rightarrow> 0 \<le> c \<and> c \<le> 100)"
proof -
  from fetchCodexQuota_success[OF assms] obtain ai acc r where
    rq: "request E 0
           \<lparr>authIndex = ai, httpMethod = ''GET'', url = CODEX_USAGE_URL E,
            header = AList.update ''Chatgpt-Account-Id'' acc (CODEX_REQUEST_HEADERS E),
            data = None\<rparr> = Returned r"
    and ws: "windows d =
               buildCodexQuotaWindows E
                 (parseCodexUsagePayload E (coalesce (body r) (bodyText r)))"
    by blast
  have st: "windows (buildSuccessState d) = windows d"
    "planType (buildSuccessState d) = planType d"
    by (simp_all add: buildSuccessState_def)
  have built: "list_all2 (builtFrom E) (windows d)
                (presentCodexWindows
                   (parseCodexUsagePayload E (coalesce (body r) (bodyText r))))"
    unfolding ws by (rule buildCodexQuotaWindows_builtFrom)
  have rows: "rowPercents (renderCodexItems E (buildSuccessState d)) =
                (if normalizePlanType E (stringOrNull (planType d)) = Some ''free'' then []
                 else map (\<lambda>w. (id' w,
                                 case usedPercent w of
                                   None \<Rightarrow> None
                                 | Some u \<Rightarrow> Some (100 - max 0 (min 100 u))))
                        (windows d))"
    unfolding rowPercents_renderCodexItems st by (rule refl)
  have range: "\<forall>row\<in>set (rowPercents (renderCodexItems E (buildSuccessState d))).
                 case snd row of None \<Rightarrow> True | Some c \<Rightarrow> 0 \<le> c \<and> c \<le> 100"
    unfolding rows by (auto split: option.splits if_splits)
  show ?thesis using rq st(1) built rows range by blast
qed

text \<open>
  C3 as stated fails: for a payload whose primary window reports 150 percent used,
  the fetch succeeds and the primary window of the Success state has 150 as its used
  percentage, which is not in the interval from 0 to 100.
\<close>

theorem codex_used_percent_range_counterexample:
  "map (\<lambda>w. (id' w, usedPercent w))
     (case fetchCodexQuota (sampleEnv (scripted [respondJson 200 overusedPayload])) sampleFile of
        Inr d \<Rightarrow> windows (buildSuccessState d)
      | Inl e \<Rightarrow> [])
     = [(''primary'', Some 150), (''secondary'', Some 30)]
   \<and> \<not> (150 \<le> (100 :: real))"
  by (simp add: fetchCodexQuota_def buildCodexQuotaWindows_def addWindow_def
      buildSuccessState_def overusedPayload_def sample_simps)

theorem codex_used_percent_clamped_when_rendered_witness:
  "map (\<lambda>w. (id' w, usedPercent w))
     (case fetchCodexQuota (sampleEnv (scripted [respondJson 200 overusedPayload])) sampleFile of
        Inr d \<Rightarrow> windows (buildSuccessState d)
      | Inl e \<Rightarrow> [])
     = [(''primary'', Some 150), (''secondary'', Some 30)]
   \<and> (case fetchCodexQuota (sampleEnv (scripted [respondJson 200 overusedPayload])) sampleFile of
        Inr d \<Rightarrow> rowPercents
                   (renderCodexItems (sampleEnv (scripted [respondJson 200 overusedPayload]))
                      (buildSuccessState d))
      | Inl e \<Rightarrow> [])
     = [(''primary'', Some 0), (''secondary'', Some 70)]"
proof -
  let ?E = "sampleEnv (scripted [respondJson 200 overusedPayload])"
  let ?w1 = "\<lparr>id' = ''primary'', label = ''codex_quota.primary_window'',
              labelKey = ''codex_quota.primary_window'', usedPercent = Some 150,
              resetLabel = ''-''\<rparr>"
  let ?w2 = "\<lparr>id' = ''secondary'', label = ''codex_quota.secondary_window'',
              labelKey = ''codex_quota.secondary_window'', usedPercent = Some 30,
              resetLabel = ''-''\<rparr>"
  let ?d = "\<lparr>planType = Some ''plus'', windows = [?w1, ?w2]\<rparr>"
  have f: "fetchCodexQuota ?E sampleFile = Inr ?d"
    by (simp add: fetchCodexQuota_def buildCodexQuotaWindows_def addWindow_def
        overusedPayload_def sample_simps)
  have plan: "normalizePlanType ?E (stringOrNull (planType ?d)) \<noteq> Some ''free''"
    by (simp add: sampleEnv_def stringOrNull_def)
  from codex_used_percent_clamped_when_rendered[OF f] plan
  have "rowPercents (renderCodexItems ?E (buildSuccessState ?d)) =
          [(''primary'', Some 0), (''secondary'', Some 70)]"
    by auto
  then show ?thesis
    unfolding f by (simp add: buildSuccessState_def)
qed

subsection \<open>GitHub Copilot: the reset date\<close>

lemma fetchGithubCopilotQuota_parsed:
  assumes "normalizeAuthIndexValue E (coalesce (dot file ''auth_index'') (dot file ''authIndex''))
             = Some ai" and "ai \<noteq> []"
    and "request E 0
           \<lparr>authIndex = ai, httpMethod = ''GET'', url = GITHUB_COPILOT_USAGE_URL E,
            header = GITHUB_COPILOT_REQUEST_HEADERS E, data = None\<rparr> = Returned r"
    and "200 \<le> statusCode r" and "statusCode r < 300"
    and "truthy (parseGithubCopilotTokenPayload E (coalesce (body r) (bodyText r)))"
  shows "fetchGithubCopilotQuota E file =
           Inr (githubCopilotQuotaData E
                  (parseGithubCopilotTokenPayload E (coalesce (body r) (bodyText r))))"
  using assms by (simp add: fetchGithubCopilotQuota_def Let_def)

lemma githubCopilotQuotaData_resetDate:
  "quotaResetDate (githubCopilotQuotaData E payload) =
     resolveQuotaResetDate E
       (normalizeStringValue E
          (coalesce (dot payload ''quota_reset_date'') (dot payload ''quotaResetDate'')))
       (normalizeNumberValue E
          (coalesce (dot payload ''limited_user_reset_date'')
             (dot payload ''limitedUserResetDate'')))"
  by (simp add: githubCopilotQuotaData_def Let_def)

text \<open>
  C1: the code departs from what it documents. Once the payload is parsed the fetch
  returns a record and raises no error, and a reset-date string that parses gives its
  time in seconds. The source comments the extraction of the reset date as preferring
  the reset-date string and falling back to the legacy numeric field, but it reads the
  legacy number only in the \<^verbatim>\<open>else\<close> branch of the test of the string: when the
  normalized string is non-empty and does not parse as a date, the reset date of the
  record is null, and it is not the legacy value when the payload has one. The legacy
  value is the reset date exactly in the other branch, when the normalized string is
  null or empty.
\<close>

theorem copilot_reset_date:
  assumes "normalizeAuthIndexValue E (coalesce (dot file ''auth_index'') (dot file ''authIndex''))
             = Some ai" and "ai \<noteq> []"
    and "request E 0
           \<lparr>authIndex = ai, httpMethod = ''GET'', url = GITHUB_COPILOT_USAGE_URL E,
            header = GITHUB_COPILOT_REQUEST_HEADERS E, data = None\<rparr> = Returned r"
    and "200 \<le> statusCode r" and "statusCode r < 300"
    and "payload = parseGithubCopilotTokenPayload E (coalesce (body r) (bodyText r))"
    and "truthy payload"
  defines "dateString \<equiv> normalizeStringValue E
             (coalesce (dot payload ''quota_reset_date'') (dot payload ''quotaResetDate''))"
    and "legacy \<equiv> normalizeNumberValue E
             (coalesce (dot payload ''limited_user_reset_date'')
                (dot payload ''limitedUserResetDate''))"
  shows "\<exists>d. fetchGithubCopilotQuota E file = Inr d
           \<and> (\<forall>s. dateString = Some s \<and> s \<noteq> [] \<and> Date_getTime E s = None \<longrightarrow>
                  quotaResetDate d = None)
           \<and> (\<forall>s n. dateString = Some s \<and> s \<noteq> [] \<and> Date_getTime E s = None
                  \<and> legacy = Some n \<longrightarrow>
                  quotaResetDate d = None \<and> quotaResetDate d \<noteq> legacy)
           \<and> (\<forall>s ms. dateString = Some s \<and> s \<noteq> [] \<and> Date_getTime E s = Some ms \<longrightarrow>
                  quotaResetDate d = Some (of_int (ms div 1000)))
           \<and> (\<not> truthyStr dateString \<longrightarrow> quotaResetDate d = legacy)"
proof -
  have f: "fetchGithubCopilotQuota E file = Inr (githubCopilotQuotaData E payload)"
    using fetchGithubCopilotQuota_parsed[OF assms(1-5)] assms(6,7) by simp
  have "quotaResetDate (githubCopilotQuotaData E payload)
          = resolveQuotaResetDate E dateString legacy"
    unfolding dateString_def legacy_def by (rule githubCopilotQuotaData_resetDate)
  then show ?thesis
    using f by (auto simp: resolveQuotaResetDate_def)
qed

theorem copilot_reset_date_witness:
  "map (\<lambda>p. map_sum id quotaResetDate
          (fetchGithubCopilotQuota (sampleEnv (scripted [respondJson 200 p])) sampleFile))
     [badDatePayload, isoDatePayload, legacyDatePayload]
   = [Inr None, Inr (Some 1735689600), Inr (Some 1700000000)]"
proof -
  let ?E = "\<lambda>p. sampleEnv (scripted [respondJson 200 p])"
  let ?r = "\<lambda>p. \<lparr>statusCode = 200, body = p, bodyText = JStr []\<rparr>"
  have auth: "normalizeAuthIndexValue (?E p)
      (coalesce (dot sampleFile ''auth_index'') (dot sampleFile ''authIndex'')) = Some ''7''"
    for p by (simp add: sample_simps)
  have ne: "''7'' \<noteq> []" by simp
  have rq: "request (?E p) 0
           \<lparr>authIndex = ''7'', httpMethod = ''GET'', url = GITHUB_COPILOT_USAGE_URL (?E p),
            header = GITHUB_COPILOT_REQUEST_HEADERS (?E p), data = None\<rparr> = Returned (?r p)"
    for p by (simp add: sample_simps)
  have ok: "200 \<le> statusCode (?r p)" "statusCode (?r p) < 300" for p by simp_all
  have pl: "p \<in> {badDatePayload, isoDatePayload, legacyDatePayload} \<Longrightarrow>
      p = parseGithubCopilotTokenPayload (?E p) (coalesce (body (?r p)) (bodyText (?r p)))"
    for p
    by (auto simp: sample_simps badDatePayload_def isoDatePayload_def legacyDatePayload_def)
  have tr: "truthy badDatePayload" "truthy isoDatePayload" "truthy legacyDatePayload"
    by (simp_all add: badDatePayload_def isoDatePayload_def legacyDatePayload_def)
  have "map_sum id quotaResetDate (fetchGithubCopilotQuota (?E badDatePayload) sampleFile)
          = Inr None"
    using copilot_reset_date[OF auth ne rq ok pl tr(1)]
    by (auto simp: sampleEnv_def coalesce_def badDatePayload_def)
  moreover
  have "map_sum id quotaResetDate (fetchGithubCopilotQuota (?E isoDatePayload) sampleFile)
          = Inr (Some 1735689600)"
    using copilot_reset_date[OF auth ne rq ok pl tr(2)]
    by (auto simp: sampleEnv_def coalesce_def isoDatePayload_def)
  moreover
  have "map_sum id quotaResetDate (fetchGithubCopilotQuota (?E legacyDatePayload) sampleFile)
          = Inr (Some 1700000000)"
    using copilot_reset_date[OF auth ne rq ok pl tr(3)]
    by (auto simp: sampleEnv_def coalesce_def legacyDatePayload_def)
  ultimately show ?thesis by simp
qed

text \<open>
  The failing input of C1: a response with status 200 whose payload carries the
  reset-date string \<open>invalid\<close>, which is no date, and the legacy numeric reset date
  1700000000. The fetch returns a record whose reset date is null, where the claim and
  the comment in the source ask for the legacy value.
\<close>

theorem copilot_reset_date_fallback_counterexample:
  "Date_getTime (sampleEnv (scripted [respondJson 200 badDatePayload])) ''invalid'' = None
   \<and> normalizeNumberValue (sampleEnv (scripted [respondJson 200 badDatePayload]))
       (coalesce (dot badDatePayload ''limited_user_reset_date'')
          (dot badDatePayload ''limitedUserResetDate'')) = Some 1700000000
   \<and> fetchGithubCopilotQuota (sampleEnv (scripted [respondJson 200 badDatePayload])) sampleFile
     = Inr \<lparr>expiresAt = None, refreshIn = None, chatQuota = None, chatPercent = None,
            chatUnlimited = False, completionsQuota = None, completionsPercent = None,
            completionsUnlimited = False, premiumQuota = None, premiumPercent = None,
            premiumEntitlement = None, quotaResetDate = None, sku = None\<rparr>"
  by (simp add: fetchGithubCopilotQuota_def githubCopilotQuotaData_def
      resolveQuotaResetDate_def quotaRemainingField_def percentRemainingField_def
      badDatePayload_def sample_simps)

subsection \<open>Antigravity: the project id\<close>

lemma returnIfTruthy_firstNonEmpty:
  "returnIfTruthy a (returnIfTruthy b (returnIfTruthy c None)) = firstNonEmpty [a, b, c]"
  by (cases a; cases b; cases c) auto

lemma nestedProjectId_objectOrNull:
  "nestedProjectId E (objectOrNull v) = (if isObjectValue v then projectIdIn E v else None)"
  by (cases v) (auto simp: nestedProjectId_def objectOrNull_def isObjectValue_def projectIdIn_def)

lemma firstNonEmpty_nonempty: "firstNonEmpty xs = Some p \<Longrightarrow> p \<noteq> [] \<and> Some p \<in> set xs"
  by (induction xs rule: firstNonEmpty.induct) (auto split: if_splits)

lemma resolveProjectIdTry_parsed:
  assumes "downloadText E (dot file ''name'') = Some text" and "trim text \<noteq> []"
    and "JSON_parse E (trim text) = Some parsed" and "\<not> nullish parsed"
  shows "resolveProjectIdTry E file = Inr (firstNonEmpty (projectIdCandidates E parsed))"
  using assms
  by (simp add: resolveProjectIdTry_def Let_def returnIfTruthy_firstNonEmpty
      nestedProjectId_objectOrNull projectIdCandidates_def projectIdIn_def)

lemma resolveProjectIdTry_cases:
  "resolveProjectIdTry E file = Inl DownloadFailed
   \<or> resolveProjectIdTry E file = Inl SyntaxError
   \<or> resolveProjectIdTry E file = Inl TypeError
   \<or> resolveProjectIdTry E file = Inr (Some DEFAULT_ANTIGRAVITY_PROJECT_ID)
   \<or> (\<exists>parsed. resolveProjectIdTry E file = Inr (firstNonEmpty (projectIdCandidates E parsed)))"
proof (cases "downloadText E (dot file ''name'')")
  case None
  then show ?thesis by (simp add: resolveProjectIdTry_def)
next
  case (Some content)
  show ?thesis
  proof (cases "trim content = []")
    case True
    with Some show ?thesis by (simp add: resolveProjectIdTry_def)
  next
    case False
    show ?thesis
    proof (cases "JSON_parse E (trim content)")
      case None
      with Some False show ?thesis by (simp add: resolveProjectIdTry_def)
    next
      case parsed: (Some parsed)
      show ?thesis
      proof (cases "nullish parsed")
        case True
        with Some False parsed show ?thesis by (simp add: resolveProjectIdTry_def)
      next
        case notnull: False
        from resolveProjectIdTry_parsed[OF Some False parsed notnull]
        show ?thesis by blast
      qed
    qed
  qed
qed

text \<open>
  C9, as the code has it. The resolver returns the default project id when the
  download fails, when the text is empty after trimming, when it does not parse, and
  when it parses to null: the three exceptions of its \<^verbatim>\<open>try\<close> block are caught.
  Otherwise it returns the first non-empty string, as \<open>normalizeStringValue\<close> gives
  it, among the project id at the top level (\<^verbatim>\<open>project_id\<close>, or \<^verbatim>\<open>projectId\<close> when
  the former is absent or null), then the project id of \<open>installed\<close>, then the one
  of \<open>web\<close>, each read in the same way from a value that is an object; and the
  default project id when none of the three is a non-empty string. Whatever the
  \<^verbatim>\<open>try\<close> block does, the resolver returns, and never the empty string.
\<close>

theorem antigravity_project_id:
  "(downloadText E (dot file ''name'') = None \<longrightarrow>
      resolveProjectIdTry E file = Inl DownloadFailed
      \<and> resolveAntigravityProjectId E file = DEFAULT_ANTIGRAVITY_PROJECT_ID)
   \<and> (\<forall>text. downloadText E (dot file ''name'') = Some text \<and> trim text = [] \<longrightarrow>
          resolveAntigravityProjectId E file = DEFAULT_ANTIGRAVITY_PROJECT_ID)
   \<and> (\<forall>text. downloadText E (dot file ''name'') = Some text \<and> trim text \<noteq> []
          \<and> JSON_parse E (trim text) = None \<longrightarrow>
          resolveProjectIdTry E file = Inl SyntaxError
          \<and> resolveAntigravityProjectId E file = DEFAULT_ANTIGRAVITY_PROJECT_ID)
   \<and> (\<forall>text parsed. downloadText E (dot file ''name'') = Some text \<and> trim text \<noteq> []
          \<and> JSON_parse E (trim text) = Some parsed \<and> nullish parsed \<longrightarrow>
          resolveProjectIdTry E file = Inl TypeError
          \<and> resolveAntigravityProjectId E file = DEFAULT_ANTIGRAVITY_PROJECT_ID)
   \<and> (\<forall>text parsed. downloadText E (dot file ''name'') = Some text \<and> trim text \<noteq> []
          \<and> JSON_parse E (trim text) = Some parsed \<and> \<not> nullish parsed \<longrightarrow>
          resolveAntigravityProjectId E file =
            (case firstNonEmpty (projectIdCandidates E parsed) of
               Some p \<Rightarrow> p
             | None \<Rightarrow> DEFAULT_ANTIGRAVITY_PROJECT_ID))
   \<and> (\<forall>e. resolveProjectIdTry E file = Inl e \<longrightarrow>
          resolveAntigravityProjectId E file = DEFAULT_ANTIGRAVITY_PROJECT_ID)
   \<and> resolveAntigravityProjectId E file \<noteq> []"
proof -
  have d: "DEFAULT_ANTIGRAVITY_PROJECT_ID \<noteq> []"
    by (simp add: DEFAULT_ANTIGRAVITY_PROJECT_ID_def)
  have A: "resolveProjectIdTry E file = Inl DownloadFailed
      \<and> resolveAntigravityProjectId E file = DEFAULT_ANTIGRAVITY_PROJECT_ID"
    if "downloadText E (dot file ''name'') = None"
    using that by (simp add: resolveAntigravityProjectId_def resolveProjectIdTry_def)
  have B: "resolveAntigravityProjectId E file = DEFAULT_ANTIGRAVITY_PROJECT_ID"
    if "downloadText E (dot file ''name'') = Some content" "trim content = []" for content
    using that by (simp add: resolveAntigravityProjectId_def resolveProjectIdTry_def)
  have C: "resolveProjectIdTry E file = Inl SyntaxError
      \<and> resolveAntigravityProjectId E file = DEFAULT_ANTIGRAVITY_PROJECT_ID"
    if "downloadText E (dot file ''name'') = Some content" "trim content \<noteq> []"
      "JSON_parse E (trim content) = None" for content
    using that by (simp add: resolveAntigravityProjectId_def resolveProjectIdTry_def)
  have D: "resolveProjectIdTry E file = Inl TypeError
      \<and> resolveAntigravityProjectId E file = DEFAULT_ANTIGRAVITY_PROJECT_ID"
    if "downloadText E (dot file ''name'') = Some content" "trim content \<noteq> []"
      "JSON_parse E (trim content) = Some parsed" "nullish parsed" for content parsed
    using that by (simp add: resolveAntigravityProjectId_def resolveProjectIdTry_def)
  have F: "resolveAntigravityProjectId E file =
            (case firstNonEmpty (projectIdCandidates E parsed) of
               Some p \<Rightarrow> p
             | None \<Rightarrow> DEFAULT_ANTIGRAVITY_PROJECT_ID)"
    if "downloadText E (dot file ''name'') = Some content" "trim content \<noteq> []"
      "JSON_parse E (trim content) = Some parsed" "\<not> nullish parsed" for content parsed
    using resolveProjectIdTry_parsed[OF that]
    by (simp add: resolveAntigravityProjectId_def split: option.splits)
  have G: "resolveAntigravityProjectId E file = DEFAULT_ANTIGRAVITY_PROJECT_ID"
    if "resolveProjectIdTry E file = Inl e" for e
    using that by (simp add: resolveAntigravityProjectId_def)
  have H: "resolveAntigravityProjectId E file \<noteq> []"
    using resolveProjectIdTry_cases[of E "file"] d
    by (auto simp: resolveAntigravityProjectId_def split: option.splits
        dest: firstNonEmpty_nonempty)
  show ?thesis using A B C D F G H by blast
qed

theorem antigravity_project_id_witness:
  "map (\<lambda>(text, parsed).
          resolveAntigravityProjectId (credentialEnv (codeUnits text) parsed) sampleFile)
     [(''{\"project_id\":\"top\",\"installed\":{\"project_id\":\"inner\"}}'',
       JObj [(''project_id'', JStr ''top''),
             (''installed'', JObj [(''project_id'', JStr ''inner'')])]),
      (''{\"installed\":{\"project_id\":\"inner\"},\"web\":{\"project_id\":\"outer\"}}'',
       JObj [(''installed'', JObj [(''project_id'', JStr ''inner'')]),
             (''web'', JObj [(''project_id'', JStr ''outer'')])]),
      (''{\"web\":{\"projectId\":\"outer\"}}'',
       JObj [(''web'', JObj [(''projectId'', JStr ''outer'')])]),
      (''{\"type\":\"authorized_user\"}'', JObj [(''type'', JStr ''authorized_user'')]),
      (''null'', JNull)]
   = [''top'', ''inner'', ''outer'', ''bamboo-precept-lgxtn'', ''bamboo-precept-lgxtn'']
   \<and> resolveAntigravityProjectId (credentialEnv [160, 32, 65279, 10] JUndefined) sampleFile
     = ''bamboo-precept-lgxtn''
   \<and> resolveAntigravityProjectId (sampleEnv (scripted [])) sampleFile = ''bamboo-precept-lgxtn''"
proof -
  let ?t1 = "codeUnits ''{\"project_id\":\"top\",\"installed\":{\"project_id\":\"inner\"}}''"
  let ?p1 = "JObj [(''project_id'', JStr ''top''),
                   (''installed'', JObj [(''project_id'', JStr ''inner'')])]"
  let ?t2 = "codeUnits
      ''{\"installed\":{\"project_id\":\"inner\"},\"web\":{\"project_id\":\"outer\"}}''"
  let ?p2 = "JObj [(''installed'', JObj [(''project_id'', JStr ''inner'')]),
                   (''web'', JObj [(''project_id'', JStr ''outer'')])]"
  let ?t3 = "codeUnits ''{\"web\":{\"projectId\":\"outer\"}}''"
  let ?p3 = "JObj [(''web'', JObj [(''projectId'', JStr ''outer'')])]"
  let ?t4 = "codeUnits ''{\"type\":\"authorized_user\"}''"
  let ?p4 = "JObj [(''type'', JStr ''authorized_user'')]"
  let ?t5 = "codeUnits ''null''"
  let ?t6 = "[160, 32, 65279, 10] :: jstext"
  note ev = credentialEnv_def sampleEnv_def sampleFile_def codeUnits_def trim_def
    isWhiteSpace_def projectIdCandidates_def projectIdIn_def isObjectValue_def coalesce_def
    DEFAULT_ANTIGRAVITY_PROJECT_ID_def
  have "resolveAntigravityProjectId (credentialEnv ?t1 ?p1) sampleFile = ''top''"
    using antigravity_project_id[of "credentialEnv ?t1 ?p1" sampleFile] by (simp add: ev)
  moreover have "resolveAntigravityProjectId (credentialEnv ?t2 ?p2) sampleFile = ''inner''"
    using antigravity_project_id[of "credentialEnv ?t2 ?p2" sampleFile] by (simp add: ev)
  moreover have "resolveAntigravityProjectId (credentialEnv ?t3 ?p3) sampleFile = ''outer''"
    using antigravity_project_id[of "credentialEnv ?t3 ?p3" sampleFile] by (simp add: ev)
  moreover have "resolveAntigravityProjectId (credentialEnv ?t4 ?p4) sampleFile
                   = ''bamboo-precept-lgxtn''"
    using antigravity_project_id[of "credentialEnv ?t4 ?p4" sampleFile] by (simp add: ev)
  moreover have "resolveAntigravityProjectId (credentialEnv ?t5 JNull) sampleFile
                   = ''bamboo-precept-lgxtn''"
    using antigravity_project_id[of "credentialEnv ?t5 JNull" sampleFile] by (simp add: ev)
  moreover have "resolveAntigravityProjectId (credentialEnv ?t6 JUndefined) sampleFile
                   = ''bamboo-precept-lgxtn''"
    using antigravity_project_id[of "credentialEnv ?t6 JUndefined" sampleFile]
    by (simp add: ev)
  moreover have "resolveAntigravityProjectId (sampleEnv (scripted [])) sampleFile
                   = ''bamboo-precept-lgxtn''"
    using antigravity_project_id[of "sampleEnv (scripted [])" sampleFile] by (simp add: ev)
  ultimately show ?thesis by simp
qed

text \<open>
  C9 as stated fails: the credential file \<^verbatim>\<open>{"installed":{"projectId":"inst"}}\<close>
  has no non-empty string at the top-level \<^verbatim>\<open>project_id\<close> or \<^verbatim>\<open>projectId\<close>, at
  \<^verbatim>\<open>installed.project_id\<close> or at \<^verbatim>\<open>web.project_id\<close>, so the stated search is
  exhausted; the resolver returns \<open>inst\<close>, read from \<^verbatim>\<open>installed.projectId\<close>, and
  not the default project id.
\<close>

theorem antigravity_project_id_nested_alias_counterexample:
  "downloadText (credentialEnv camelCredentialText camelCredential) (dot sampleFile ''name'')
     = Some camelCredentialText
   \<and> JSON_parse (credentialEnv camelCredentialText camelCredential) (trim camelCredentialText)
     = Some camelCredential
   \<and> firstNonEmpty
       (statedProjectIdCandidates (credentialEnv camelCredentialText camelCredential)
          camelCredential) = None
   \<and> resolveAntigravityProjectId (credentialEnv camelCredentialText camelCredential) sampleFile
     = ''inst''
   \<and> ''inst'' \<noteq> DEFAULT_ANTIGRAVITY_PROJECT_ID"
  by (simp add: credentialEnv_def sampleEnv_def sampleFile_def camelCredentialText_def
      camelCredential_def codeUnits_def trim_def isWhiteSpace_def
      statedProjectIdCandidates_def resolveAntigravityProjectId_def resolveProjectIdTry_def
      nestedProjectId_def objectOrNull_def coalesce_def DEFAULT_ANTIGRAVITY_PROJECT_ID_def
      Let_def)

end
